theory Spec2Isabelle
  imports Complex_Main
begin

section \<open>Data model (src/types/index.ts)\<close>

text \<open>
  The entities of the task tracker. A \<open>Date\<close> is its number of milliseconds since the
  epoch; a JavaScript \<open>number\<close> that holds a rank or a count is an \<open>int\<close>; hours are
  \<open>real\<close>. An optional field \<open>f?: T\<close> is a \<open>T option\<close>. The \<open>tags\<close> of a task are
  the ids of its tags.
\<close>

datatype TaskStatus = TODO | IN_PROGRESS | REVIEW | DONE

datatype TaskPriority = LOW | MEDIUM | HIGH | URGENT

record Task =
  task_id :: string
  task_title :: string
  task_description :: "string option"
  task_status :: TaskStatus
  task_priority :: TaskPriority
  task_deadline :: "int option"
  task_order :: int
  task_projectId :: string
  task_userId :: string
  task_tags :: "string list"
  task_createdAt :: int
  task_updatedAt :: int
  task_completedAt :: "int option"
  task_estimatedHours :: "real option"
  task_actualHours :: "real option"

text \<open>
  \<open>Partial<Task>\<close>: every key may be absent (\<open>None\<close>). A key of an optional field that is
  present may still hold \<open>undefined\<close>, hence the nested option.
\<close>

record PartialTask =
  p_id :: "string option"
  p_title :: "string option"
  p_description :: "string option option"
  p_status :: "TaskStatus option"
  p_priority :: "TaskPriority option"
  p_deadline :: "int option option"
  p_order :: "int option"
  p_projectId :: "string option"
  p_userId :: "string option"
  p_tags :: "string list option"
  p_createdAt :: "int option"
  p_updatedAt :: "int option"
  p_completedAt :: "int option option"
  p_estimatedHours :: "real option option"
  p_actualHours :: "real option option"

definition no_updates :: PartialTask where
  "no_updates = \<lparr> p_id = None, p_title = None, p_description = None, p_status = None,
     p_priority = None, p_deadline = None, p_order = None, p_projectId = None,
     p_userId = None, p_tags = None, p_createdAt = None, p_updatedAt = None,
     p_completedAt = None, p_estimatedHours = None, p_actualHours = None \<rparr>"

text \<open>One key of an object spread \<open>{...task, ...updates}\<close>: a present key wins.\<close>

definition spread_key :: "'a option \<Rightarrow> 'a \<Rightarrow> 'a" where
  "spread_key u old = (case u of None \<Rightarrow> old | Some v \<Rightarrow> v)"

definition spread_task :: "Task \<Rightarrow> PartialTask \<Rightarrow> Task" where
  "spread_task t u =
     \<lparr> task_id = spread_key (p_id u) (task_id t),
       task_title = spread_key (p_title u) (task_title t),
       task_description = spread_key (p_description u) (task_description t),
       task_status = spread_key (p_status u) (task_status t),
       task_priority = spread_key (p_priority u) (task_priority t),
       task_deadline = spread_key (p_deadline u) (task_deadline t),
       task_order = spread_key (p_order u) (task_order t),
       task_projectId = spread_key (p_projectId u) (task_projectId t),
       task_userId = spread_key (p_userId u) (task_userId t),
       task_tags = spread_key (p_tags u) (task_tags t),
       task_createdAt = spread_key (p_createdAt u) (task_createdAt t),
       task_updatedAt = spread_key (p_updatedAt u) (task_updatedAt t),
       task_completedAt = spread_key (p_completedAt u) (task_completedAt t),
       task_estimatedHours = spread_key (p_estimatedHours u) (task_estimatedHours t),
       task_actualHours = spread_key (p_actualHours u) (task_actualHours t) \<rparr>"

text \<open>A task with the given id, status and rank, used in the concrete scenarios.\<close>

definition mk_task :: "string \<Rightarrow> TaskStatus \<Rightarrow> int \<Rightarrow> Task" where
  "mk_task i s k =
     \<lparr> task_id = i, task_title = ''Task'', task_description = None, task_status = s,
       task_priority = MEDIUM, task_deadline = None, task_order = k,
       task_projectId = ''p1'', task_userId = ''user1'', task_tags = [],
       task_createdAt = 0, task_updatedAt = 0, task_completedAt = None,
       task_estimatedHours = None, task_actualHours = None \<rparr>"


section \<open>Client cache and mutation layer (src/hooks/use-tasks.ts)\<close>

text \<open>
  The query cache entry \<open>['tasks']\<close> is \<open>undefined\<close> (\<open>None\<close>) or a task array. The
  optimistic step of \<open>useUpdateTask\<close> is the updater passed to \<open>setQueryData\<close>:
  \<^verbatim>\<open>(old) => old?.map(task => task.id === taskId ? { ...task, ...updates } : task) || []\<close>
\<close>

type_synonym TaskCache = "Task list option"

definition optimistic_apply :: "string \<Rightarrow> PartialTask \<Rightarrow> TaskCache \<Rightarrow> Task list" where
  "optimistic_apply taskId updates old =
     (case old of
        None \<Rightarrow> []
      | Some ts \<Rightarrow> map (\<lambda>task. if task_id task = taskId then spread_task task updates else task) ts)"

text \<open>
  \<open>onMutate\<close> snapshots the cache entry, writes the optimistic list and returns the
  snapshot as the mutation context. \<open>onError\<close> writes the snapshot back when the context
  holds one (an array, even an empty one, is truthy) and leaves the cache alone otherwise.
\<close>

record MutationContext =
  previousTasks :: TaskCache

definition onMutate :: "string \<Rightarrow> PartialTask \<Rightarrow> TaskCache \<Rightarrow> TaskCache \<times> MutationContext" where
  "onMutate taskId updates cache =
     (let previousTasks = cache
      in (Some (optimistic_apply taskId updates cache), \<lparr> previousTasks = previousTasks \<rparr>))"

definition onError :: "MutationContext option \<Rightarrow> TaskCache \<Rightarrow> TaskCache" where
  "onError context cache =
     (case context of
        None \<Rightarrow> cache
      | Some c \<Rightarrow> (case previousTasks c of None \<Rightarrow> cache | Some prev \<Rightarrow> Some prev))"


subsection \<open>Fetch helpers\<close>

text \<open>
  What a fetch helper sees of an HTTP response: \<open>response.ok\<close>, \<open>response.status\<close>,
  \<open>response.statusText\<close> and the parsed body (\<open>None\<close> when \<open>response.json()\<close> rejects).
  The body is the envelope \<open>{success, data, error}\<close>, each key possibly absent.
\<close>

record 'a ApiBody =
  body_success :: "bool option"
  body_data :: "'a option"
  body_error :: "string option"

record 'a HttpResponse =
  resp_ok :: bool
  resp_status :: nat
  resp_statusText :: string
  resp_json :: "'a ApiBody option"

text \<open>
  A thrown JavaScript error: its message and what \<open>error?.status\<close> reads (\<open>None\<close> for
  \<open>undefined\<close>). \<open>new Error(msg)\<close> has no \<open>status\<close> property.
\<close>

record JsError =
  err_message :: string
  err_status :: "int option"

definition new_Error :: "string \<Rightarrow> JsError" where
  "new_Error msg = \<lparr> err_message = msg, err_status = None \<rparr>"

text \<open>\<open>a || b\<close> on an optional string: \<open>undefined\<close> and the empty string are falsy.\<close>

definition str_or :: "string option \<Rightarrow> string \<Rightarrow> string" where
  "str_or a b = (case a of None \<Rightarrow> b | Some s \<Rightarrow> if s = [] then b else s)"

fun show_nat :: "nat \<Rightarrow> string" where
  "show_nat n =
     (if n < 10 then [''0123456789'' ! n]
      else show_nat (n div 10) @ [''0123456789'' ! (n mod 10)])"

declare show_nat.simps [simp del]

text \<open>
  The branch \<open>if (!response.ok)\<close>, the same in the three helpers:
  \<^verbatim>\<open>const errorData = await response.json().catch(() => ({}))
  throw new Error(errorData.error || `HTTP ${response.status}: ${response.statusText}`)\<close>
\<close>

definition not_ok_error :: "'a HttpResponse \<Rightarrow> JsError" where
  "not_ok_error response =
     (let errorData_error = (case resp_json response of None \<Rightarrow> None | Some b \<Rightarrow> body_error b)
      in new_Error (str_or errorData_error
           (''HTTP '' @ show_nat (resp_status response) @ '': '' @ resp_statusText response)))"

text \<open>
  When the response is ok but its body is not JSON, \<open>response.json()\<close> rejects with a
  \<open>SyntaxError\<close> of the runtime, which is an error without a \<open>status\<close> too.
\<close>

definition json_SyntaxError :: JsError where
  "json_SyntaxError = new_Error ''SyntaxError''"

definition fetchTasks :: "Task list HttpResponse \<Rightarrow> JsError + Task list" where
  "fetchTasks response =
     (if \<not> resp_ok response then Inl (not_ok_error response)
      else case resp_json response of
             None \<Rightarrow> Inl json_SyntaxError
           | Some data \<Rightarrow>
               if body_success data \<noteq> Some True
               then Inl (new_Error (str_or (body_error data) ''Failed to fetch tasks''))
               else Inr (case body_data data of None \<Rightarrow> [] | Some ts \<Rightarrow> ts))"

definition updateTask :: "Task HttpResponse \<Rightarrow> JsError + Task option" where
  "updateTask response =
     (if \<not> resp_ok response then Inl (not_ok_error response)
      else case resp_json response of
             None \<Rightarrow> Inl json_SyntaxError
           | Some data \<Rightarrow>
               if body_success data \<noteq> Some True
               then Inl (new_Error (str_or (body_error data) ''Failed to update task''))
               else Inr (body_data data))"

definition createTask :: "Task HttpResponse \<Rightarrow> JsError + Task option" where
  "createTask response =
     (if \<not> resp_ok response then Inl (not_ok_error response)
      else case resp_json response of
             None \<Rightarrow> Inl json_SyntaxError
           | Some data \<Rightarrow>
               if body_success data \<noteq> Some True
               then Inl (new_Error (str_or (body_error data) ''Failed to create task''))
               else Inr (body_data data))"


subsection \<open>Retry policy (src/components/providers/query-provider.tsx)\<close>

definition queries_retry :: "nat \<Rightarrow> JsError \<Rightarrow> bool" where
  "queries_retry failureCount error =
     (if err_status error = Some 401 \<or> err_status error = Some 403 then False
      else failureCount < 3)"

definition mutations_retry :: "nat \<Rightarrow> JsError \<Rightarrow> bool" where
  "mutations_retry failureCount error =
     (if err_status error = Some 401 \<or> err_status error = Some 403 then False
      else failureCount < 1)"

text \<open>
  The query client calls the retry function after each failed attempt with the number of
  retries made so far, starting at 0, and tries again when it answers true. For a request
  that keeps failing with the same error, \<open>retries_made\<close> counts the retries; the fuel
  bounds the number of calls, and \<open>None\<close> means that the fuel ran out.
\<close>

fun retries_made :: "nat \<Rightarrow> (nat \<Rightarrow> JsError \<Rightarrow> bool) \<Rightarrow> JsError \<Rightarrow> nat \<Rightarrow> nat option" where
  "retries_made 0 retry error failureCount = None"
| "retries_made (Suc fuel) retry error failureCount =
     (if retry failureCount error then retries_made fuel retry error (Suc failureCount)
      else Some failureCount)"

text \<open>The 401 response of the task endpoints, as the fetch helpers receive it.\<close>

definition unauthorized_response :: "'a HttpResponse" where
  "unauthorized_response =
     \<lparr> resp_ok = False, resp_status = 401, resp_statusText = ''Unauthorized'',
       resp_json = Some \<lparr> body_success = Some False, body_data = None,
                          body_error = Some ''Unauthorized'' \<rparr> \<rparr>"


section \<open>Analytics aggregator (src/components/AnalyticsCharts.tsx)\<close>

text \<open>
  JavaScript division does not fail: dividing by zero gives \<open>NaN\<close> or an infinity. A
  number that may be one of these is a \<open>real option\<close>, with \<open>None\<close> for the non-finite
  results, so that a division by zero shows in the value.
\<close>

definition js_div :: "real \<Rightarrow> real \<Rightarrow> real option" where
  "js_div a b = (if b = 0 then None else Some (a / b))"

record TaskAnalytics =
  totalTasks :: nat
  completedTasks :: nat
  pendingTasks :: int
  overdueTasks :: nat
  completionRate :: "real option"
  avgCompletionTime :: "real option"

text \<open>
  \<^verbatim>\<open>Math.ceil((new Date(task.completedAt!).getTime() - new Date(task.createdAt).getTime())
     / (1000 * 60 * 60 * 24))\<close>
  The time of a missing date is \<open>NaN\<close>.
\<close>

definition diffInDays :: "Task \<Rightarrow> real option" where
  "diffInDays task =
     (case task_completedAt task of
        None \<Rightarrow> None
      | Some c \<Rightarrow> map_option (\<lambda>q. real_of_int \<lceil>q\<rceil>)
                    (js_div (real_of_int (c - task_createdAt task)) (1000 * 60 * 60 * 24)))"

definition js_add :: "real option \<Rightarrow> real option \<Rightarrow> real option" where
  "js_add a b = (case a of None \<Rightarrow> None | Some x \<Rightarrow> map_option (\<lambda>y. x + y) b)"

definition analytics :: "int \<Rightarrow> Task list \<Rightarrow> TaskAnalytics" where
  "analytics now tasks =
     (let totalTasks = length tasks;
          completedTasks = length (filter (\<lambda>task. task_status task = DONE) tasks);
          pendingTasks = int totalTasks - int completedTasks;
          overdueTasks = length (filter (\<lambda>task.
              (case task_deadline task of None \<Rightarrow> False | Some d \<Rightarrow> now > d)
              \<and> task_status task \<noteq> DONE) tasks);
          completionRate =
            (if totalTasks > 0
             then map_option (\<lambda>q. q * 100) (js_div (real completedTasks) (real totalTasks))
             else Some 0);
          completedTasksWithDates = filter (\<lambda>task.
              task_status task = DONE \<and> task_completedAt task \<noteq> None) tasks;
          avgCompletionTime =
            (if length completedTasksWithDates > 0
             then (case fold (\<lambda>task acc. js_add acc (diffInDays task))
                          completedTasksWithDates (Some 0) of
                     None \<Rightarrow> None
                   | Some days \<Rightarrow> js_div days (real (length completedTasksWithDates)))
             else Some 0)
      in \<lparr> totalTasks = totalTasks, completedTasks = completedTasks,
           pendingTasks = pendingTasks, overdueTasks = overdueTasks,
           completionRate = completionRate, avgCompletionTime = avgCompletionTime \<rparr>)"


section \<open>Resource endpoints (the route handlers under src/app/api)\<close>

subsection \<open>Entity store, session and responses\<close>

record Project =
  project_id :: string
  project_name :: string
  project_description :: "string option"
  project_color :: string
  project_userId :: string
  project_createdAt :: int
  project_updatedAt :: int

text \<open>
  The store holds the task rows, the project rows and the task-tag join rows (task id,
  tag id). The \<open>task_tags\<close> of a row are not used: the tags of a task are its join rows.
  The store follows the Prisma schema of the repository. Its \<open>Task\<close> model has the columns
  id, title, description, status, priority, deadline, order, projectId, userId, createdAt
  and updatedAt; it has no column \<open>completedAt\<close>, \<open>estimatedHours\<close> or \<open>actualHours\<close>, so
  in a stored row these three are absent.
\<close>

record Db =
  db_tasks :: "Task list"
  db_projects :: "Project list"
  db_taskTags :: "(string \<times> string) list"

definition schema_row :: "Task \<Rightarrow> bool" where
  "schema_row t =
     (task_completedAt t = None \<and> task_estimatedHours t = None \<and> task_actualHours t = None)"

text \<open>
  \<open>session?.user?.id\<close>: \<open>None\<close> when there is no session; the guard
  \<open>!session?.user?.id\<close> also rejects the empty id.
\<close>

type_synonym Session = "string option"

definition no_user :: "Session \<Rightarrow> bool" where
  "no_user session = (case session of None \<Rightarrow> True | Some uid \<Rightarrow> uid = [])"

text \<open>
  The checks of the validation schemas. A message is a text written in the source, or the
  default text that the schema library gives to a failed check; the default text depends
  on the check only, not on the field. A required key that is missing fails the check
  \<open>Required\<close>, whatever its type; a value of another type than the expected one fails
  \<open>InvalidType\<close> with the expected and the received type.
\<close>

datatype JsonType = TUndefined | TNull | TBoolean | TNumber | TString | TArray | TObject

datatype ZodExpected = ExpString | ExpNumber | ExpArray | ExpObject | ExpEnum

datatype ZodCheck =
    Required
  | InvalidType ZodExpected JsonType
  | InvalidEnumValue string
  | StringMin nat
  | StringMax nat
  | Datetime
  | NumberInt
  | NumberMin real
  | NumberPositive

datatype MessageText = Text string | ZodDefaultText ZodCheck

record ZodIssue =
  issue_path :: string
  issue_message :: MessageText

record Pagination =
  pg_total :: nat
  pg_page :: int
  pg_limit :: int
  pg_totalPages :: "int option"

datatype Payload =
    TaskData Task
  | TaskListData "Task list" Pagination
  | ProjectData Project "Task list" nat

text \<open>The status code and the JSON envelope of a response; an absent key is \<open>None\<close>.\<close>

record NextResponse =
  res_status :: nat
  res_success :: "bool option"
  res_data :: "Payload option"
  res_error :: "string option"
  res_message :: "MessageText option"

definition error_response :: "nat \<Rightarrow> string \<Rightarrow> NextResponse" where
  "error_response code err =
     \<lparr> res_status = code, res_success = Some False, res_data = None,
       res_error = Some err, res_message = None \<rparr>"

text \<open>
  \<^verbatim>\<open>if (error instanceof z.ZodError) return NextResponse.json(
     { success: false, error: 'Validation error', message: error.errors[0].message },
     { status: 400 })\<close>
  A \<open>ZodError\<close> has at least one issue.
\<close>

definition validation_response :: "ZodIssue list \<Rightarrow> NextResponse" where
  "validation_response errors =
     \<lparr> res_status = 400, res_success = Some False, res_data = None,
       res_error = Some ''Validation error'',
       res_message = (case errors of [] \<Rightarrow> None | e # _ \<Rightarrow> Some (issue_message e)) \<rparr>"

definition findFirst_task :: "string \<Rightarrow> string \<Rightarrow> Db \<Rightarrow> Task option" where
  "findFirst_task tid uid db =
     find (\<lambda>t. task_id t = tid \<and> task_userId t = uid) (db_tasks db)"

definition findFirst_project :: "string \<Rightarrow> string \<Rightarrow> Db \<Rightarrow> Project option" where
  "findFirst_project pid uid db =
     find (\<lambda>p. project_id p = pid \<and> project_userId p = uid) (db_projects db)"

definition tags_of :: "Db \<Rightarrow> string \<Rightarrow> string list" where
  "tags_of db tid = map snd (filter (\<lambda>r. fst r = tid) (db_taskTags db))"

text \<open>The \<open>include\<close> of the task queries: the row with its tags read from the join rows.\<close>

definition with_tags :: "Db \<Rightarrow> Task \<Rightarrow> Task" where
  "with_tags db t = t\<lparr>task_tags := tags_of db (task_id t)\<rparr>"


subsection \<open>Task creation: \<open>createTaskSchema\<close> and \<open>POST /api/tasks\<close>\<close>

text \<open>
  A string offered as a date: either an ISO-8601 datetime, given by its instant, or any
  other string. \<open>z.string().datetime()\<close> accepts the former only.
\<close>

datatype DateString = IsoDatetime int | OtherString string





definition mk_issue :: "string \<Rightarrow> MessageText \<Rightarrow> ZodIssue" where
  "mk_issue path msg = \<lparr> issue_path = path, issue_message = msg \<rparr>"

text \<open>\<open>title: z.string().min(1, 'Title is required').max(200)\<close>\<close>

definition title_issues :: "string \<Rightarrow> ZodIssue list" where
  "title_issues t =
     (if length t < 1 then [mk_issue ''title'' (Text ''Title is required'')] else [])
     @ (if length t > 200 then [mk_issue ''title'' (ZodDefaultText (StringMax 200))] else [])"

definition datetime_issues :: "DateString \<Rightarrow> ZodIssue list" where
  "datetime_issues d =
     (case d of IsoDatetime _ \<Rightarrow> []
              | OtherString _ \<Rightarrow> [mk_issue ''deadline'' (ZodDefaultText Datetime)])"

definition positive_issues :: "string \<Rightarrow> real \<Rightarrow> ZodIssue list" where
  "positive_issues path x =
     (if x > 0 then [] else [mk_issue path (ZodDefaultText NumberPositive)])"

definition optional :: "('a \<Rightarrow> ZodIssue list) \<Rightarrow> 'a option \<Rightarrow> ZodIssue list" where
  "optional check v = (case v of None \<Rightarrow> [] | Some x \<Rightarrow> check x)"












definition date_of :: "DateString \<Rightarrow> int option" where
  "date_of d = (case d of IsoDatetime ms \<Rightarrow> Some ms | OtherString _ \<Rightarrow> None)"





subsection \<open>Task list: \<open>GET /api/tasks\<close>\<close>

text \<open>
  \<open>parseInt\<close> without a radix: leading white space is skipped, a sign is read, the prefix
  \<open>0x\<close> selects base 16, and the longest prefix of digits is the value; \<open>None\<close> is \<open>NaN\<close>.
\<close>

definition is_space :: "char \<Rightarrow> bool" where
  "is_space c = (c \<in> set [CHR '' '', CHR 0x09, CHR 0x0A, CHR 0x0B, CHR 0x0C, CHR 0x0D])"

definition digit_of :: "nat \<Rightarrow> char \<Rightarrow> nat option" where
  "digit_of radix c =
     (case map_of (zip ''0123456789abcdefABCDEF'' ([0..<16] @ [10..<16])) c of
        None \<Rightarrow> None
      | Some d \<Rightarrow> if d < radix then Some d else None)"

definition parse_digits :: "nat \<Rightarrow> string \<Rightarrow> nat option" where
  "parse_digits radix s =
     (let ds = takeWhile (\<lambda>c. digit_of radix c \<noteq> None) s
      in if ds = [] then None
         else Some (fold (\<lambda>c acc. acc * radix + (case digit_of radix c of None \<Rightarrow> 0 | Some d \<Rightarrow> d))
                      ds 0))"

definition parseInt :: "string \<Rightarrow> int option" where
  "parseInt s =
     (let s1 = dropWhile is_space s;
          neg = (case s1 of [] \<Rightarrow> False | c # _ \<Rightarrow> c = CHR ''-'');
          s2 = (case s1 of [] \<Rightarrow> [] | c # r \<Rightarrow> if c = CHR ''-'' \<or> c = CHR ''+'' then r else s1);
          hex = (case s2 of a # b # _ \<Rightarrow> a = CHR ''0'' \<and> (b = CHR ''x'' \<or> b = CHR ''X'') | _ \<Rightarrow> False);
          n = (if hex then parse_digits 16 (drop 2 s2) else parse_digits 10 s2)
      in map_option (\<lambda>n. if neg then - int n else int n) n)"

text \<open>The query parameters; \<open>searchParams.get\<close> gives \<open>null\<close> for an absent one.\<close>

record TaskQuery =
  q_projectId :: "string option"
  q_status :: "string option"
  q_priority :: "string option"
  q_page :: "string option"
  q_limit :: "string option"
  q_search :: "string option"

fun status_name :: "TaskStatus \<Rightarrow> string" where
  "status_name TODO = ''TODO''"
| "status_name IN_PROGRESS = ''IN_PROGRESS''"
| "status_name REVIEW = ''REVIEW''"
| "status_name DONE = ''DONE''"

fun priority_name :: "TaskPriority \<Rightarrow> string" where
  "priority_name LOW = ''LOW''"
| "priority_name MEDIUM = ''MEDIUM''"
| "priority_name HIGH = ''HIGH''"
| "priority_name URGENT = ''URGENT''"

text \<open>\<open>{ contains: search, mode: 'insensitive' }\<close>, on ASCII letters.\<close>

definition lower_char :: "char \<Rightarrow> char" where
  "lower_char c =
     (case map_of (zip ''ABCDEFGHIJKLMNOPQRSTUVWXYZ'' ''abcdefghijklmnopqrstuvwxyz'') c of
        None \<Rightarrow> c | Some l \<Rightarrow> l)"

fun is_prefix :: "'a list \<Rightarrow> 'a list \<Rightarrow> bool" where
  "is_prefix [] ys = True"
| "is_prefix (x # xs) [] = False"
| "is_prefix (x # xs) (y # ys) = (x = y \<and> is_prefix xs ys)"

fun contains :: "'a list \<Rightarrow> 'a list \<Rightarrow> bool" where
  "contains [] sub = (sub = [])"
| "contains (x # xs) sub = (is_prefix sub (x # xs) \<or> contains xs sub)"

definition contains_insensitive :: "string \<Rightarrow> string \<Rightarrow> bool" where
  "contains_insensitive s search = contains (map lower_char s) (map lower_char search)"

text \<open>A filter of the \<open>where\<close> clause is set only when its parameter is a non-empty string.\<close>

definition param_matches :: "string option \<Rightarrow> (string \<Rightarrow> bool) \<Rightarrow> bool" where
  "param_matches p test = (case p of None \<Rightarrow> True | Some v \<Rightarrow> if v = [] then True else test v)"

definition where_tasks :: "string \<Rightarrow> TaskQuery \<Rightarrow> Task \<Rightarrow> bool" where
  "where_tasks uid q t =
     (task_userId t = uid
      \<and> param_matches (q_projectId q) (\<lambda>projectId. task_projectId t = projectId)
      \<and> param_matches (q_status q) (\<lambda>status. status_name (task_status t) = status)
      \<and> param_matches (q_priority q) (\<lambda>priority. priority_name (task_priority t) = priority)
      \<and> param_matches (q_search q) (\<lambda>search.
            contains_insensitive (task_title t) search
            \<or> (case task_description t of None \<Rightarrow> False
                 | Some d \<Rightarrow> contains_insensitive d search)))"

text \<open>
  \<open>orderBy: [{ status: 'asc' }, { order: 'asc' }, { createdAt: 'desc' }]\<close>. The status is
  stored as a string, so it is ordered by name. Three stable sorts, the least significant
  key first, give the lexicographic order.
\<close>

fun status_rank :: "TaskStatus \<Rightarrow> nat" where
  "status_rank DONE = 0"
| "status_rank IN_PROGRESS = 1"
| "status_rank REVIEW = 2"
| "status_rank TODO = 3"

definition orderBy_tasks :: "Task list \<Rightarrow> Task list" where
  "orderBy_tasks ts =
     sort_key (\<lambda>t. status_rank (task_status t))
       (sort_key task_order (sort_key (\<lambda>t. - task_createdAt t) ts))"

text \<open>
  \<open>skip\<close> and \<open>take\<close> of \<open>findMany\<close>. The store refuses a negative \<open>skip\<close> (\<open>None\<close>); a
  negative \<open>take\<close> counts from the end of the list.
\<close>

definition skip_take :: "int \<Rightarrow> int \<Rightarrow> 'a list \<Rightarrow> 'a list option" where
  "skip_take sk tk xs =
     (if sk < 0 then None
      else if tk < 0 then Some (rev (take (nat (- tk)) (drop (nat sk) (rev xs))))
      else Some (take (nat tk) (drop (nat sk) xs)))"

definition GET_tasks :: "Session \<Rightarrow> TaskQuery \<Rightarrow> Db \<Rightarrow> NextResponse" where
  "GET_tasks session q db =
     (if no_user session then error_response 401 ''Unauthorized''
      else case session of None \<Rightarrow> error_response 401 ''Unauthorized'' | Some uid \<Rightarrow>
        (case (parseInt (str_or (q_page q) ''1''), parseInt (str_or (q_limit q) ''50'')) of
           (Some page, Some limit) \<Rightarrow>
             (let matching = filter (where_tasks uid q) (db_tasks db);
                  total = length matching
              in case skip_take ((page - 1) * limit) limit (orderBy_tasks matching) of
                   None \<Rightarrow> error_response 500 ''Internal server error''
                 | Some tasks \<Rightarrow>
                     \<lparr> res_status = 200, res_success = Some True,
                       res_data = Some (TaskListData (map (with_tags db) tasks)
                         \<lparr> pg_total = total, pg_page = page, pg_limit = limit,
                           pg_totalPages = map_option ceiling
                              (js_div (real total) (real_of_int limit)) \<rparr>),
                       res_error = None, res_message = None \<rparr>)
         | _ \<Rightarrow> error_response 500 ''Internal server error''))"

definition no_query :: TaskQuery where
  "no_query = \<lparr> q_projectId = None, q_status = None, q_priority = None, q_page = None,
                 q_limit = None, q_search = None \<rparr>"


subsection \<open>Single task: \<open>/api/tasks/[id]\<close>\<close>

definition GET_task :: "Session \<Rightarrow> string \<Rightarrow> Db \<Rightarrow> NextResponse" where
  "GET_task session params_id db =
     (if no_user session then error_response 401 ''Unauthorized''
      else case session of None \<Rightarrow> error_response 401 ''Unauthorized'' | Some uid \<Rightarrow>
        (case findFirst_task params_id uid db of
           None \<Rightarrow> error_response 404 ''Task not found''
         | Some task \<Rightarrow>
             \<lparr> res_status = 200, res_success = Some True,
               res_data = Some (TaskData (with_tags db task)),
               res_error = None, res_message = None \<rparr>))"

text \<open>
  The body of an update, typed as \<open>UpdateTaskRequest\<close>; \<open>deadline\<close> may also be \<open>null\<close>
  (\<open>Some None\<close>), and \<open>order\<close> is any number.
\<close>

record UpdateTaskBody =
  u_title :: "string option"
  u_description :: "string option"
  u_status :: "TaskStatus option"
  u_priority :: "TaskPriority option"
  u_deadline :: "DateString option option"
  u_order :: "real option"
  u_projectId :: "string option"
  u_tagIds :: "string list option"
  u_estimatedHours :: "real option"
  u_actualHours :: "real option"

text \<open>\<open>order: z.number().int().min(0).optional()\<close>\<close>

definition order_issues :: "real \<Rightarrow> ZodIssue list" where
  "order_issues x =
     (if x = real_of_int \<lfloor>x\<rfloor> then [] else [mk_issue ''order'' (ZodDefaultText NumberInt)])
     @ (if x < 0 then [mk_issue ''order'' (ZodDefaultText (NumberMin 0))] else [])"

definition updateTaskSchema :: "UpdateTaskBody \<Rightarrow> ZodIssue list" where
  "updateTaskSchema body =
     optional title_issues (u_title body)
     @ (case u_deadline body of Some (Some d) \<Rightarrow> datetime_issues d | _ \<Rightarrow> [])
     @ optional order_issues (u_order body)
     @ optional (\<lambda>p. if length p < 1 then [mk_issue ''projectId'' (ZodDefaultText (StringMin 1))]
                      else []) (u_projectId body)
     @ optional (positive_issues ''estimatedHours'') (u_estimatedHours body)
     @ optional (positive_issues ''actualHours'') (u_actualHours body)"

text \<open>
  The \<open>data\<close> of a task update: the keys that the handler sets. A key that is present
  may hold \<open>null\<close>.
\<close>

record TaskUpdateData =
  d_title :: "string option"
  d_description :: "string option"
  d_status :: "TaskStatus option"
  d_completedAt :: "int option option"
  d_priority :: "TaskPriority option"
  d_deadline :: "int option option"
  d_order :: "int option"
  d_projectId :: "string option"
  d_estimatedHours :: "real option"
  d_actualHours :: "real option"

text \<open>
  The \<open>updateData\<close> of the handler: only the supplied fields are set.
  \<^verbatim>\<open>if (validatedData.status !== undefined) {
    updateData.status = validatedData.status
    if (validatedData.status === 'DONE' && existingTask.status !== 'DONE') {
      updateData.completedAt = new Date()
    } else if (validatedData.status !== 'DONE') {
      updateData.completedAt = null
    }
  }\<close>
\<close>

definition updateData :: "UpdateTaskBody \<Rightarrow> Task \<Rightarrow> int \<Rightarrow> TaskUpdateData" where
  "updateData validatedData existingTask now =
     \<lparr> d_title = u_title validatedData,
       d_description = u_description validatedData,
       d_status = u_status validatedData,
       d_completedAt =
         (case u_status validatedData of
            None \<Rightarrow> None
          | Some s \<Rightarrow> if s = DONE \<and> task_status existingTask \<noteq> DONE then Some (Some now)
                      else if s \<noteq> DONE then Some None
                      else None),
       d_priority = u_priority validatedData,
       d_deadline =
         (case u_deadline validatedData of
            None \<Rightarrow> None
          | Some v \<Rightarrow> Some (case v of None \<Rightarrow> None | Some d \<Rightarrow> date_of d)),
       d_order = map_option floor (u_order validatedData),
       d_projectId = u_projectId validatedData,
       d_estimatedHours = u_estimatedHours validatedData,
       d_actualHours = u_actualHours validatedData \<rparr>"

text \<open>An update or a delete by the unique id acts on the first row that has the id.\<close>

fun update_first :: "('a \<Rightarrow> bool) \<Rightarrow> ('a \<Rightarrow> 'a) \<Rightarrow> 'a list \<Rightarrow> 'a list" where
  "update_first P f [] = []"
| "update_first P f (x # xs) = (if P x then f x # xs else x # update_first P f xs)"

fun delete_first :: "('a \<Rightarrow> bool) \<Rightarrow> 'a list \<Rightarrow> 'a list" where
  "delete_first P [] = []"
| "delete_first P (x # xs) = (if P x then xs else x # delete_first P xs)"

text \<open>
  \<open>prisma.task.update({ where, data })\<close>. The client generated from the schema refuses
  data with a key that is not a column of the model, and refuses the update when no row
  matches \<open>where\<close>; \<open>None\<close> is the rejected promise. An accepted update sets the given
  columns of the row and stamps \<open>updatedAt\<close>.
\<close>

definition unknown_keys :: "TaskUpdateData \<Rightarrow> bool" where
  "unknown_keys data =
     (d_completedAt data \<noteq> None \<or> d_estimatedHours data \<noteq> None \<or> d_actualHours data \<noteq> None)"

definition set_columns :: "TaskUpdateData \<Rightarrow> int \<Rightarrow> Task \<Rightarrow> Task" where
  "set_columns data now row =
     row\<lparr> task_title := spread_key (d_title data) (task_title row),
          task_description := (case d_description data of
                                 None \<Rightarrow> task_description row | Some v \<Rightarrow> Some v),
          task_status := spread_key (d_status data) (task_status row),
          task_priority := spread_key (d_priority data) (task_priority row),
          task_deadline := spread_key (d_deadline data) (task_deadline row),
          task_order := spread_key (d_order data) (task_order row),
          task_projectId := spread_key (d_projectId data) (task_projectId row),
          task_updatedAt := now \<rparr>"

definition task_update ::
  "(Task \<Rightarrow> bool) \<Rightarrow> TaskUpdateData \<Rightarrow> int \<Rightarrow> Task list \<Rightarrow> Task list option" where
  "task_update where_row data now rows =
     (if unknown_keys data then None
      else if \<not> list_ex where_row rows then None
      else Some (update_first where_row (set_columns data now) rows))"

definition PUT_task ::
  "Session \<Rightarrow> UpdateTaskBody option \<Rightarrow> string \<Rightarrow> int \<Rightarrow> Db \<Rightarrow> NextResponse \<times> Db" where
  "PUT_task session body params_id now db =
     (if no_user session then (error_response 401 ''Unauthorized'', db)
      else case session of None \<Rightarrow> (error_response 401 ''Unauthorized'', db) | Some uid \<Rightarrow>
        (case body of
           None \<Rightarrow> (error_response 500 ''Internal server error'', db)
         | Some validatedData \<Rightarrow>
             if updateTaskSchema validatedData \<noteq> []
             then (validation_response (updateTaskSchema validatedData), db)
             else (case findFirst_task params_id uid db of
               None \<Rightarrow> (error_response 404 ''Task not found'', db)
             | Some existingTask \<Rightarrow>
                 if (case u_projectId validatedData of
                       None \<Rightarrow> False
                     | Some p \<Rightarrow> p \<noteq> [] \<and> p \<noteq> task_projectId existingTask
                                 \<and> findFirst_project p uid db = None)
                 then (error_response 404 ''Project not found or unauthorized'', db)
                 else
                   (case task_update (\<lambda>t. task_id t = params_id)
                           (updateData validatedData existingTask now) now (db_tasks db) of
                      None \<Rightarrow> (error_response 500 ''Internal server error'', db)
                    | Some rows \<Rightarrow>
                        (let updatedTask = (case find (\<lambda>t. task_id t = params_id) rows of
                                              None \<Rightarrow> existingTask | Some t \<Rightarrow> with_tags db t);
                             tagRows = (case u_tagIds validatedData of
                                          None \<Rightarrow> db_taskTags db
                                        | Some tagIds \<Rightarrow>
                                            filter (\<lambda>r. fst r \<noteq> params_id) (db_taskTags db)
                                            @ map (\<lambda>tagId. (params_id, tagId)) tagIds)
                         in (\<lparr> res_status = 200, res_success = Some True,
                               res_data = Some (TaskData updatedTask), res_error = None,
                               res_message = Some (Text ''Task updated successfully'') \<rparr>,
                             db\<lparr> db_tasks := rows, db_taskTags := tagRows \<rparr>))))))"

definition DELETE_task :: "Session \<Rightarrow> string \<Rightarrow> Db \<Rightarrow> NextResponse \<times> Db" where
  "DELETE_task session params_id db =
     (if no_user session then (error_response 401 ''Unauthorized'', db)
      else case session of None \<Rightarrow> (error_response 401 ''Unauthorized'', db) | Some uid \<Rightarrow>
        (case findFirst_task params_id uid db of
           None \<Rightarrow> (error_response 404 ''Task not found'', db)
         | Some task \<Rightarrow>
             (\<lparr> res_status = 200, res_success = Some True, res_data = None,
                res_error = None, res_message = Some (Text ''Task deleted successfully'') \<rparr>,
              db\<lparr> db_tasks := delete_first (\<lambda>t. task_id t = params_id) (db_tasks db),
                  db_taskTags := filter (\<lambda>r. fst r \<noteq> params_id) (db_taskTags db) \<rparr>)))"


subsection \<open>Bulk update: \<open>PUT /api/tasks\<close>\<close>

record BulkItem =
  b_id :: string
  b_status :: TaskStatus
  b_order :: int

text \<open>
  \<open>body.bulkUpdate\<close> and \<open>body.tasks\<close> (\<open>None\<close> when it is not an array). Each item is
  \<^verbatim>\<open>prisma.task.update({ where: { id: taskUpdate.id, userId: session.user.id },
     data: { status: taskUpdate.status, order: taskUpdate.order,
             ...(taskUpdate.status === 'DONE' && { completedAt: new Date() }) } })\<close>
  All updates are started, so when one of them is rejected the others still apply; the
  handler then answers 500.
\<close>

record BulkBody =
  bulkUpdate :: bool
  bulk_tasks :: "BulkItem list option"

definition bulk_data :: "BulkItem \<Rightarrow> int \<Rightarrow> TaskUpdateData" where
  "bulk_data taskUpdate now =
     \<lparr> d_title = None, d_description = None,
       d_status = Some (b_status taskUpdate),
       d_completedAt = (if b_status taskUpdate = DONE then Some (Some now) else None),
       d_priority = None, d_deadline = None,
       d_order = Some (b_order taskUpdate),
       d_projectId = None, d_estimatedHours = None, d_actualHours = None \<rparr>"

definition bulk_update_one :: "string \<Rightarrow> int \<Rightarrow> BulkItem \<Rightarrow> Task list \<times> bool \<Rightarrow> Task list \<times> bool" where
  "bulk_update_one uid now taskUpdate acc =
     (case task_update (\<lambda>t. task_id t = b_id taskUpdate \<and> task_userId t = uid)
             (bulk_data taskUpdate now) now (fst acc) of
        None \<Rightarrow> (fst acc, False)
      | Some rows \<Rightarrow> (rows, snd acc))"

definition PUT_tasks :: "Session \<Rightarrow> BulkBody option \<Rightarrow> int \<Rightarrow> Db \<Rightarrow> NextResponse \<times> Db" where
  "PUT_tasks session body now db =
     (if no_user session then (error_response 401 ''Unauthorized'', db)
      else case session of None \<Rightarrow> (error_response 401 ''Unauthorized'', db) | Some uid \<Rightarrow>
        (case body of
           None \<Rightarrow> (error_response 500 ''Internal server error'', db)
         | Some b \<Rightarrow>
             (case (bulkUpdate b, bulk_tasks b) of
                (True, Some items) \<Rightarrow>
                  (let result = fold (bulk_update_one uid now) items (db_tasks db, True)
                   in (if snd result
                       then \<lparr> res_status = 200, res_success = Some True, res_data = None,
                              res_error = None,
                              res_message = Some (Text ''Tasks updated successfully'') \<rparr>
                       else error_response 500 ''Internal server error'',
                       db\<lparr> db_tasks := fst result \<rparr>))
              | _ \<Rightarrow> (error_response 400 ''Invalid bulk update format'', db))))"


subsection \<open>Single project: \<open>/api/projects/[id]\<close>\<close>

text \<open>The project handlers answer a missing session with \<open>{ error: 'Unauthorized' }\<close>.\<close>

definition unauthorized_project :: NextResponse where
  "unauthorized_project =
     \<lparr> res_status = 401, res_success = None, res_data = None,
       res_error = Some ''Unauthorized'', res_message = None \<rparr>"

definition GET_project :: "Session \<Rightarrow> string \<Rightarrow> Db \<Rightarrow> NextResponse" where
  "GET_project session params_id db =
     (if no_user session then unauthorized_project
      else case session of None \<Rightarrow> unauthorized_project | Some uid \<Rightarrow>
        (case findFirst_project params_id uid db of
           None \<Rightarrow> error_response 404 ''Project not found''
         | Some project \<Rightarrow>
             (let tasks = filter (\<lambda>t. task_projectId t = params_id) (db_tasks db)
              in \<lparr> res_status = 200, res_success = Some True,
                   res_data = Some (ProjectData project
                                (map (with_tags db) (sort_key task_order tasks)) (length tasks)),
                   res_error = None, res_message = None \<rparr>)))"

record UpdateProjectBody =
  up_name :: "string option"
  up_description :: "string option"
  up_color :: "string option"

text \<open>
  \<^verbatim>\<open>data: { ...(name && { name }), ...(description !== undefined && { description }),
          ...(color && { color }) }\<close>
\<close>

definition project_data :: "UpdateProjectBody \<Rightarrow> int \<Rightarrow> Project \<Rightarrow> Project" where
  "project_data body now row =
     (let r1 = (case up_name body of None \<Rightarrow> row
                | Some name \<Rightarrow> if name = [] then row else row\<lparr>project_name := name\<rparr>);
          r2 = (case up_description body of None \<Rightarrow> r1
                | Some description \<Rightarrow> r1\<lparr>project_description := Some description\<rparr>);
          r3 = (case up_color body of None \<Rightarrow> r2
                | Some color \<Rightarrow> if color = [] then r2 else r2\<lparr>project_color := color\<rparr>)
      in r3\<lparr>project_updatedAt := now\<rparr>)"

definition PUT_project ::
  "Session \<Rightarrow> UpdateProjectBody option \<Rightarrow> string \<Rightarrow> int \<Rightarrow> Db \<Rightarrow> NextResponse \<times> Db" where
  "PUT_project session body params_id now db =
     (if no_user session then (unauthorized_project, db)
      else case session of None \<Rightarrow> (unauthorized_project, db) | Some uid \<Rightarrow>
        (case body of
           None \<Rightarrow> (error_response 500 ''Failed to update project'', db)
         | Some b \<Rightarrow>
             (case findFirst_project params_id uid db of
                None \<Rightarrow> (error_response 404 ''Project not found'', db)
              | Some existingProject \<Rightarrow>
                  (let rows = update_first (\<lambda>p. project_id p = params_id) (project_data b now)
                                (db_projects db);
                       project = (case find (\<lambda>p. project_id p = params_id) rows of
                                    None \<Rightarrow> existingProject | Some p \<Rightarrow> p)
                   in (\<lparr> res_status = 200, res_success = Some True,
                         res_data = Some (ProjectData project []
                            (length (filter (\<lambda>t. task_projectId t = params_id) (db_tasks db)))),
                         res_error = None, res_message = None \<rparr>,
                       db\<lparr> db_projects := rows \<rparr>)))))"

text \<open>Deleting a project cascades to its tasks and to their tag rows.\<close>

definition DELETE_project :: "Session \<Rightarrow> string \<Rightarrow> Db \<Rightarrow> NextResponse \<times> Db" where
  "DELETE_project session params_id db =
     (if no_user session then (unauthorized_project, db)
      else case session of None \<Rightarrow> (unauthorized_project, db) | Some uid \<Rightarrow>
        (case findFirst_project params_id uid db of
           None \<Rightarrow> (error_response 404 ''Project not found'', db)
         | Some existingProject \<Rightarrow>
             (let gone = map task_id (filter (\<lambda>t. task_projectId t = params_id) (db_tasks db))
              in (\<lparr> res_status = 200, res_success = Some True, res_data = None,
                    res_error = None,
                    res_message = Some (Text ''Project deleted successfully'') \<rparr>,
                  db\<lparr> db_projects := delete_first (\<lambda>p. project_id p = params_id) (db_projects db),
                      db_tasks := filter (\<lambda>t. task_projectId t \<noteq> params_id) (db_tasks db),
                      db_taskTags := filter (\<lambda>r. fst r \<notin> set gone) (db_taskTags db) \<rparr>))))"

text \<open>Stores and bodies of the concrete scenarios.\<close>

definition no_task_updates :: UpdateTaskBody where
  "no_task_updates =
     \<lparr> u_title = None, u_description = None, u_status = None, u_priority = None,
       u_deadline = None, u_order = None, u_projectId = None, u_tagIds = None,
       u_estimatedHours = None, u_actualHours = None \<rparr>"

definition sample_project :: Project where
  "sample_project =
     \<lparr> project_id = ''p1'', project_name = ''Project'', project_description = None,
       project_color = ''#3B82F6'', project_userId = ''user1'',
       project_createdAt = 0, project_updatedAt = 0 \<rparr>"

definition sample_db :: "Task list \<Rightarrow> Db" where
  "sample_db ts = \<lparr> db_tasks = ts, db_projects = [sample_project], db_taskTags = [] \<rparr>"


section \<open>Board reconciliation (src/components/TaskBoard.tsx)\<close>

text \<open>
  The board holds references to task objects. The lanes are built from the \<open>tasks\<close> prop
  by \<open>filter\<close> and \<open>sort\<close>, which copy the array and share its objects, so a write such
  as \<open>task.order = index\<close> through a lane is seen through the prop as well, while the
  object spread \<open>{...draggedTask, status, order}\<close> makes a new object. The state is
  therefore the object store, the next unused reference and the \<open>columns\<close> of the
  component; the column objects and their arrays are reached through \<open>columns\<close> only.
\<close>

type_synonym ref = nat

record BoardColumn =
  col_id :: TaskStatus
  col_title :: string
  col_tasks :: "ref list"
  col_color :: string

record Board =
  objs :: "ref \<Rightarrow> Task"
  next_ref :: ref
  columns :: "BoardColumn list"

definition BOARD_COLUMNS :: "BoardColumn list" where
  "BOARD_COLUMNS =
     [\<lparr> col_id = TODO, col_title = ''To Do'', col_tasks = [], col_color = ''bg-gray-100'' \<rparr>,
      \<lparr> col_id = IN_PROGRESS, col_title = ''In Progress'', col_tasks = [], col_color = ''bg-blue-50'' \<rparr>,
      \<lparr> col_id = REVIEW, col_title = ''Review'', col_tasks = [], col_color = ''bg-yellow-50'' \<rparr>,
      \<lparr> col_id = DONE, col_title = ''Done'', col_tasks = [], col_color = ''bg-green-50'' \<rparr>]"

text \<open>
  The lanes computed from the tasks, in the effect and again in the \<open>catch\<close> block:
  \<^verbatim>\<open>BOARD_COLUMNS.map(column => ({ ...column,
     tasks: tasks.filter(task => task.status === column.id).sort((a, b) => a.order - b.order) }))\<close>
  The sort is stable.
\<close>

definition organize :: "(ref \<Rightarrow> Task) \<Rightarrow> ref list \<Rightarrow> BoardColumn list" where
  "organize h tasks =
     map (\<lambda>column. column\<lparr>col_tasks :=
             sort_key (\<lambda>a. task_order (h a)) (filter (\<lambda>task. task_status (h task) = col_id column) tasks)\<rparr>)
       BOARD_COLUMNS"

record DraggableLocation =
  droppableId :: TaskStatus
  loc_index :: nat

record DropResult =
  destination :: "DraggableLocation option"
  source :: DraggableLocation
  draggableId :: string

datatype Effect =
    TaskUpdateCall string PartialTask
  | Toast string string

text \<open>\<open>findIndex\<close>; \<open>None\<close> is the result -1.\<close>

fun findIndex :: "('a \<Rightarrow> bool) \<Rightarrow> 'a list \<Rightarrow> nat option" where
  "findIndex P [] = None"
| "findIndex P (x # xs) = (if P x then Some 0 else map_option Suc (findIndex P xs))"

text \<open>
  \<open>splice(i, 1)\<close> and \<open>splice(i, 0, x)\<close>: past the end, the first removes nothing and the
  second appends.
\<close>

definition splice_remove :: "nat \<Rightarrow> 'a list \<Rightarrow> 'a list" where
  "splice_remove i xs = take i xs @ drop (Suc i) xs"

definition splice_insert :: "nat \<Rightarrow> 'a \<Rightarrow> 'a list \<Rightarrow> 'a list" where
  "splice_insert i x xs = take i xs @ x # drop i xs"

text \<open>\<open>tasks.forEach((task, index) => { task.order = index })\<close>, from the given index on.\<close>

fun forEach_order :: "ref list \<Rightarrow> nat \<Rightarrow> (ref \<Rightarrow> Task) \<Rightarrow> (ref \<Rightarrow> Task)" where
  "forEach_order [] index h = h"
| "forEach_order (task # rest) index h =
     forEach_order rest (Suc index) (h(task := (h task)\<lparr>task_order := int index\<rparr>))"

text \<open>
  The optimistic update of \<open>handleDragEnd\<close>, between \<open>try {\<close> and \<open>setColumns(newColumns)\<close>.
  \<open>newColumns\<close> is a shallow copy, so the two splices act on the arrays of the state.
\<close>

definition optimistic_update ::
  "DraggableLocation \<Rightarrow> DraggableLocation \<Rightarrow> ref \<Rightarrow> nat \<Rightarrow> nat \<Rightarrow> Board \<Rightarrow> Board" where
  "optimistic_update src dest draggedTask sourceColIndex destColIndex st =
     (let newColumns = columns st;
          removed = newColumns[sourceColIndex := (newColumns ! sourceColIndex)
                      \<lparr>col_tasks := splice_remove (loc_index src)
                                      (col_tasks (newColumns ! sourceColIndex))\<rparr>];
          updatedTask = next_ref st;
          h1 = (objs st)(updatedTask := (objs st draggedTask)
                      \<lparr>task_status := droppableId dest, task_order := int (loc_index dest)\<rparr>);
          inserted = removed[destColIndex := (removed ! destColIndex)
                      \<lparr>col_tasks := splice_insert (loc_index dest) updatedTask
                                      (col_tasks (removed ! destColIndex))\<rparr>];
          h2 = forEach_order (col_tasks (inserted ! destColIndex)) 0 h1
      in \<lparr> objs = h2, next_ref = Suc (next_ref st), columns = inserted \<rparr>)"

definition move_updates :: "DraggableLocation \<Rightarrow> PartialTask" where
  "move_updates dest =
     no_updates\<lparr>p_status := Some (droppableId dest), p_order := Some (int (loc_index dest))\<rparr>"

text \<open>
  \<open>handleDragEnd\<close>. The prop \<open>onTaskUpdate\<close> is awaited; its result here is whether the
  promise was fulfilled. \<open>tasks\<close> is the prop as the handler closed over it. A failed
  \<open>findIndex\<close> would make the first splice throw inside the \<open>try\<close> block.
\<close>

definition handleDragEnd ::
  "(string \<Rightarrow> PartialTask \<Rightarrow> bool) \<Rightarrow> ref list \<Rightarrow> DropResult \<Rightarrow> Board \<Rightarrow> Board \<times> Effect list" where
  "handleDragEnd onTaskUpdate tasks result st =
     (case destination result of
        None \<Rightarrow> (st, [])
      | Some dest \<Rightarrow>
          if droppableId dest = droppableId (source result)
             \<and> loc_index dest = loc_index (source result)
          then (st, [])
          else
            (case find (\<lambda>col. col_id col = droppableId (source result)) (columns st) of
               None \<Rightarrow> (st, [])
             | Some sourceColumn \<Rightarrow>
                 (case find (\<lambda>col. col_id col = droppableId dest) (columns st) of
                    None \<Rightarrow> (st, [])
                  | Some destColumn \<Rightarrow>
                      (case find (\<lambda>task. task_id (objs st task) = draggableId result)
                              (col_tasks sourceColumn) of
                         None \<Rightarrow> (st, [])
                       | Some draggedTask \<Rightarrow>
                           (case (findIndex (\<lambda>col. col_id col = droppableId (source result)) (columns st),
                                  findIndex (\<lambda>col. col_id col = droppableId dest) (columns st)) of
                              (Some sourceColIndex, Some destColIndex) \<Rightarrow>
                                (let st1 = optimistic_update (source result) dest draggedTask
                                             sourceColIndex destColIndex st;
                                     call = TaskUpdateCall (draggableId result) (move_updates dest)
                                 in if onTaskUpdate (draggableId result) (move_updates dest)
                                    then (st1, [call, Toast ''Task moved''
                                                  (''Task moved to '' @ col_title destColumn)])
                                    else (st1\<lparr>columns := organize (objs st1) tasks\<rparr>,
                                          [call, Toast ''Error''
                                                  ''Failed to move task. Please try again.'']))
                            | _ \<Rightarrow> (st\<lparr>columns := organize (objs st) tasks\<rparr>,
                                    [Toast ''Error''
                                       ''Failed to move task. Please try again.'']))))))"

text \<open>What a lane shows: the task values behind the references of the column with that id.\<close>

definition lane :: "Board \<Rightarrow> TaskStatus \<Rightarrow> Task list" where
  "lane st c =
     (case find (\<lambda>col. col_id col = c) (columns st) of
        None \<Rightarrow> []
      | Some col \<Rightarrow> map (objs st) (col_tasks col))"

definition board_view :: "Board \<Rightarrow> (TaskStatus \<times> Task list) list" where
  "board_view st = map (\<lambda>col. (col_id col, map (objs st) (col_tasks col))) (columns st)"

text \<open>
  The specification's renumbering of a lane: every task gets its position as its rank.
\<close>

definition renumbered :: "Task list \<Rightarrow> Task list" where
  "renumbered ts = map (\<lambda>(t, k). t\<lparr>task_order := int k\<rparr>) (zip ts [0..<length ts])"

text \<open>
  A board over the two task objects 0 and 1, with the lanes computed from them.
\<close>

definition two_tasks :: "Task \<Rightarrow> Task \<Rightarrow> Board" where
  "two_tasks a b =
     \<lparr> objs = (\<lambda>_. a)(1 := b), next_ref = 2,
       columns = organize ((\<lambda>_. a)(1 := b)) [0, 1] \<rparr>"

definition drag :: "string \<Rightarrow> TaskStatus \<Rightarrow> nat \<Rightarrow> TaskStatus \<Rightarrow> nat \<Rightarrow> DropResult" where
  "drag i s si d di =
     \<lparr> destination = Some \<lparr> droppableId = d, loc_index = di \<rparr>,
       source = \<lparr> droppableId = s, loc_index = si \<rparr>, draggableId = i \<rparr>"


text \<open>
  The invariant of a board: the columns have different ids, a reference occurs once in its
  lane and in no other lane, and every reference in a lane is in use.
\<close>

definition wf_board :: "Board \<Rightarrow> bool" where
  "wf_board st =
     (distinct (map col_id (columns st))
      \<and> (\<forall>col \<in> set (columns st).
            distinct (col_tasks col) \<and> (\<forall>a \<in> set (col_tasks col). a < next_ref st))
      \<and> (\<forall>c1 \<in> set (columns st). \<forall>c2 \<in> set (columns st).
            col_id c1 \<noteq> col_id c2 \<longrightarrow> set (col_tasks c1) \<inter> set (col_tasks c2) = {}))"

section \<open>Optimistic apply step\<close>

lemma optimistic_apply_length:
  "length (optimistic_apply taskId updates (Some old)) = length old"
  by (simp add: optimistic_apply_def)




section \<open>Retry policy\<close>

lemma not_ok_error_status: "err_status (not_ok_error response) = None"
  by (simp add: not_ok_error_def new_Error_def Let_def)

lemma fetchTasks_error_status: "fetchTasks response = Inl e \<Longrightarrow> err_status e = None"
  by (auto simp: fetchTasks_def not_ok_error_status json_SyntaxError_def new_Error_def
      split: if_splits option.splits)

lemma updateTask_error_status: "updateTask response = Inl e \<Longrightarrow> err_status e = None"
  by (auto simp: updateTask_def not_ok_error_status json_SyntaxError_def new_Error_def
      split: if_splits option.splits)

lemma createTask_error_status: "createTask response = Inl e \<Longrightarrow> err_status e = None"
  by (auto simp: createTask_def not_ok_error_status json_SyntaxError_def new_Error_def
      split: if_splits option.splits)

text \<open>
  An error that carries the status 401 or 403 is never retried, and an error without a
  status is retried three times by a query and once by a mutation.
\<close>

lemma retry_with_status:
  "err_status e = Some 401 \<or> err_status e = Some 403 \<Longrightarrow>
     retries_made (Suc fuel) queries_retry e 0 = Some 0
     \<and> retries_made (Suc fuel) mutations_retry e 0 = Some 0"
  by (auto simp: queries_retry_def mutations_retry_def)

lemma retry_without_status:
  "err_status e = None \<Longrightarrow>
     retries_made (Suc (Suc (Suc (Suc fuel)))) queries_retry e 0 = Some 3
     \<and> retries_made (Suc (Suc fuel)) mutations_retry e 0 = Some 1"
  by (simp add: queries_retry_def mutations_retry_def)

lemma fetch_errors_retried:
  "fetchTasks response = Inl e \<Longrightarrow>
     retries_made (Suc (Suc (Suc (Suc fuel)))) queries_retry e 0 = Some 3"
  using fetchTasks_error_status retry_without_status by blast

lemma update_errors_retried:
  "updateTask response = Inl e \<Longrightarrow>
     retries_made (Suc (Suc fuel)) mutations_retry e 0 = Some 1"
  using updateTask_error_status retry_without_status by blast

text \<open>
  Claim C7, evaluated at an authorization-denied failure. The read of the task list
  answered with 401 surfaces as \<open>new Error('Unauthorized')\<close>, which has no status: the
  query retry function answers true at failure counts 0, 1 and 2, so the read is retried
  three times, and the mutation retry function answers true at 0, so the update is
  retried once.
\<close>

theorem retry_unauthorized_is_retried:
  "fetchTasks unauthorized_response = Inl (new_Error ''Unauthorized'')
   \<and> queries_retry 0 (new_Error ''Unauthorized'')
   \<and> retries_made 10 queries_retry (new_Error ''Unauthorized'') 0 = Some 3
   \<and> updateTask unauthorized_response = Inl (new_Error ''Unauthorized'')
   \<and> mutations_retry 0 (new_Error ''Unauthorized'')
   \<and> retries_made 10 mutations_retry (new_Error ''Unauthorized'') 0 = Some 1"
proof -
  have f: "fetchTasks unauthorized_response = Inl (new_Error ''Unauthorized'')"
    by (simp add: fetchTasks_def unauthorized_response_def not_ok_error_def str_or_def)
  have u: "updateTask unauthorized_response = Inl (new_Error ''Unauthorized'')"
    by (simp add: updateTask_def unauthorized_response_def not_ok_error_def str_or_def)
  have q: "retries_made 10 queries_retry (new_Error ''Unauthorized'') 0 = Some 3"
    by (simp add: eval_nat_numeral queries_retry_def new_Error_def)
  have m: "retries_made 10 mutations_retry (new_Error ''Unauthorized'') 0 = Some 1"
    by (simp add: eval_nat_numeral mutations_retry_def new_Error_def)
  show ?thesis
    using f u q m by (simp add: queries_retry_def mutations_retry_def new_Error_def)
qed


section \<open>Analytics aggregator\<close>

lemma analytics_counts:
  "totalTasks (analytics now tasks) = length tasks
   \<and> completedTasks (analytics now tasks) = length (filter (\<lambda>task. task_status task = DONE) tasks)"
  by (simp add: analytics_def Let_def)

text \<open>
  The claim C8 as it is worded takes the completion rate to be the quotient
  completed/total. One finished task out of one gives the rate 100, not 1.
\<close>

theorem completionRate_quotient_counterexample:
  "completionRate (analytics 0 [mk_task ''1'' DONE 0])
     \<noteq> js_div (real (completedTasks (analytics 0 [mk_task ''1'' DONE 0])))
              (real (totalTasks (analytics 0 [mk_task ''1'' DONE 0])))"
  by (simp add: analytics_def Let_def mk_task_def js_div_def)

text \<open>
  Claim C8, amended. For every task list the completion rate is a finite number, never
  the result of a division by zero: it is 0 for the empty list and otherwise the
  percentage completed/total * 100. The average completion time is 0 when no task has a
  completion timestamp.
\<close>

theorem completionRate_percentage:
  "completionRate (analytics now tasks) =
     Some (if tasks = [] then 0
           else real (completedTasks (analytics now tasks))
                  / real (totalTasks (analytics now tasks)) * 100)
   \<and> completionRate (analytics now []) = Some 0
   \<and> ((\<forall>task \<in> set tasks. task_completedAt task = None) \<longrightarrow>
        avgCompletionTime (analytics now tasks) = Some 0)"
proof -
  have rate: "completionRate (analytics now tasks) =
     Some (if tasks = [] then 0
           else real (completedTasks (analytics now tasks))
                  / real (totalTasks (analytics now tasks)) * 100)"
    by (cases tasks) (simp_all add: analytics_def Let_def js_div_def)
  have empty: "completionRate (analytics now []) = Some 0"
    by (simp add: analytics_def)
  have avg: "avgCompletionTime (analytics now tasks) = Some 0"
    if "\<forall>task \<in> set tasks. task_completedAt task = None"
  proof -
    from that have "filter (\<lambda>task. task_status task = DONE \<and> task_completedAt task \<noteq> None) tasks = []"
      by (simp add: filter_empty_conv)
    then show ?thesis
      by (simp add: analytics_def Let_def)
  qed
  from rate empty avg show ?thesis by blast
qed

theorem completionRate_percentage_witness:
  "completionRate (analytics 0 [mk_task ''1'' DONE 0, mk_task ''2'' TODO 1]) = Some 50
   \<and> avgCompletionTime (analytics 0 [mk_task ''1'' DONE 0, mk_task ''2'' TODO 1]) = Some 0"
  using completionRate_percentage [of 0 "[mk_task ''1'' DONE 0, mk_task ''2'' TODO 1]"]
  by (simp add: analytics_counts mk_task_def)


section \<open>Task creation\<close>

lemma title_issues_empty: "title_issues [] = [mk_issue ''title'' (Text ''Title is required'')]"
  by (simp add: title_issues_def)

lemma title_issues_ok: "1 \<le> length t \<Longrightarrow> length t \<le> 200 \<Longrightarrow> title_issues t = []"
  by (auto simp: title_issues_def)

lemma title_issues_long:
  "200 < length t \<Longrightarrow> title_issues t = [mk_issue ''title'' (ZodDefaultText (StringMax 200))]"
  by (auto simp: title_issues_def)















section \<open>Task list pagination\<close>

lemma parseInt_defaults: "parseInt ''1'' = Some 1 \<and> parseInt ''50'' = Some 50"
  by code_simp

text \<open>
  Claim C10. An authenticated read of the task list without the parameters \<open>page\<close> and
  \<open>limit\<close> answers 200 with the first 50 of the caller's matching tasks in the list
  order, so at most 50 tasks, and with the pagination \<open>total\<close> = number of matching
  tasks, \<open>page\<close> = 1, \<open>limit\<close> = 50 and \<open>totalPages\<close> = the ceiling of total / 50.
\<close>

theorem GET_tasks_default_pagination:
  assumes "q_page q = None" and "q_limit q = None" and "uid \<noteq> []"
  shows "GET_tasks (Some uid) q db =
           \<lparr> res_status = 200, res_success = Some True,
             res_data = Some (TaskListData
                (map (with_tags db) (take 50 (orderBy_tasks (filter (where_tasks uid q) (db_tasks db)))))
                \<lparr> pg_total = length (filter (where_tasks uid q) (db_tasks db)),
                  pg_page = 1, pg_limit = 50,
                  pg_totalPages =
                    Some \<lceil>real (length (filter (where_tasks uid q) (db_tasks db))) / 50\<rceil> \<rparr>),
             res_error = None, res_message = None \<rparr>
       \<and> length (map (with_tags db) (take 50 (orderBy_tasks (filter (where_tasks uid q) (db_tasks db))))) \<le> 50"
  using assms parseInt_defaults
  by (simp add: GET_tasks_def no_user_def str_or_def skip_take_def js_div_def Let_def)

theorem GET_tasks_default_pagination_witness:
  "GET_tasks (Some ''user1'') no_query
       \<lparr> db_tasks = [mk_task ''1'' TODO 0], db_projects = [], db_taskTags = [] \<rparr> =
     \<lparr> res_status = 200, res_success = Some True,
       res_data = Some (TaskListData [mk_task ''1'' TODO 0]
          \<lparr> pg_total = 1, pg_page = 1, pg_limit = 50, pg_totalPages = Some 1 \<rparr>),
       res_error = None, res_message = None \<rparr>"
proof -
  let ?db = "\<lparr> db_tasks = [mk_task ''1'' TODO 0], db_projects = [], db_taskTags = [] \<rparr>"
  have m: "filter (where_tasks ''user1'' no_query) (db_tasks ?db) = [mk_task ''1'' TODO 0]"
    by (simp add: where_tasks_def no_query_def param_matches_def mk_task_def)
  have c: "\<lceil>(1::real) / 50\<rceil> = 1"
    by (simp add: ceiling_eq_iff)
  have w: "with_tags ?db (mk_task ''1'' TODO 0) = mk_task ''1'' TODO 0"
    by (simp add: with_tags_def tags_of_def mk_task_def)
  from GET_tasks_default_pagination [of no_query "''user1''" ?db] m c w
  show ?thesis
    by (simp add: no_query_def orderBy_tasks_def)
qed


section \<open>Completion timestamp\<close>

text \<open>
  What the single-task handler puts under \<open>completedAt\<close> when the body sets the status:
  the clock on entering \<open>DONE\<close>, \<open>null\<close> for every other status, and nothing when the
  task stays \<open>DONE\<close>. The bulk handler sets the key only for the status \<open>DONE\<close>.
\<close>

lemma updateData_completedAt:
  "u_status b = Some s \<Longrightarrow>
     d_completedAt (updateData b ex now) =
       (if s = DONE \<and> task_status ex \<noteq> DONE then Some (Some now)
        else if s \<noteq> DONE then Some None else None)"
  by (simp add: updateData_def)

lemma bulk_data_completedAt:
  "d_completedAt (bulk_data u now) = (if b_status u = DONE then Some (Some now) else None)"
  by (simp add: bulk_data_def)

text \<open>The store refuses every write that carries the key.\<close>

lemma task_update_unknown_key:
  "d_completedAt data \<noteq> None \<Longrightarrow> task_update where_row data now rows = None"
  by (simp add: task_update_def unknown_keys_def)

text \<open>
  So a single-task update by the owner that sets a status is answered 500 and stores
  nothing, unless the task is and stays \<open>DONE\<close>.
\<close>

lemma PUT_task_status_refused:
  assumes auth: "uid \<noteq> []"
    and valid: "updateTaskSchema b = []"
    and own: "findFirst_task tid uid db = Some ex"
    and proj: "u_projectId b = None"
    and st: "u_status b = Some s"
    and change: "s \<noteq> DONE \<or> task_status ex \<noteq> DONE"
  shows "PUT_task (Some uid) (Some b) tid now db = (error_response 500 ''Internal server error'', db)"
proof -
  from updateData_completedAt [OF st, of ex now] change
  have "d_completedAt (updateData b ex now) \<noteq> None"
    by (auto split: if_splits)
  then have "task_update (\<lambda>t. task_id t = tid) (updateData b ex now) now (db_tasks db) = None"
    by (rule task_update_unknown_key)
  with auth valid own proj show ?thesis
    by (simp add: PUT_task_def no_user_def)
qed

text \<open>
  No handler ever stores a completion time: when the rows are rows of the schema before
  an update, single or bulk, they are rows of the schema after it.
\<close>

lemma update_first_all:
  "\<forall>x \<in> set xs. Q x \<Longrightarrow> (\<And>x. Q x \<Longrightarrow> Q (f x)) \<Longrightarrow> \<forall>x \<in> set (update_first P f xs). Q x"
  by (induction xs) auto

lemma set_columns_schema_row: "schema_row row \<Longrightarrow> schema_row (set_columns data now row)"
  by (simp add: schema_row_def set_columns_def)

lemma task_update_schema_rows:
  assumes "\<forall>t \<in> set rows. schema_row t" and "task_update where_row data now rows = Some rows'"
  shows "\<forall>t \<in> set rows'. schema_row t"
proof -
  from assms(2) have "rows' = update_first where_row (set_columns data now) rows"
    by (simp add: task_update_def split: if_splits)
  with assms(1) show ?thesis
    using update_first_all [of rows schema_row "set_columns data now" where_row]
    by (simp add: set_columns_schema_row)
qed

lemma PUT_task_schema_rows:
  assumes "\<forall>t \<in> set (db_tasks db). schema_row t"
  shows "\<forall>t \<in> set (db_tasks (snd (PUT_task session body tid now db))). schema_row t"
proof -
  have "db_tasks (snd (PUT_task session body tid now db)) = db_tasks db
        \<or> (\<exists>where_row data rows'. task_update where_row data now (db_tasks db) = Some rows'
             \<and> db_tasks (snd (PUT_task session body tid now db)) = rows')"
    by (auto simp: PUT_task_def Let_def split: option.splits)
  with assms task_update_schema_rows show ?thesis
    by metis
qed

lemma bulk_updates_schema_rows:
  "\<forall>t \<in> set (fst acc). schema_row t \<Longrightarrow>
     \<forall>t \<in> set (fst (fold (bulk_update_one uid now) items acc)). schema_row t"
proof (induction items arbitrary: acc)
  case Nil
  then show ?case by simp
next
  case (Cons u items)
  have "\<forall>t \<in> set (fst (bulk_update_one uid now u acc)). schema_row t"
    using Cons.prems task_update_schema_rows
    by (auto simp: bulk_update_one_def split: option.splits)
  then show ?case
    using Cons.IH by simp
qed

lemma PUT_tasks_schema_rows:
  assumes "\<forall>t \<in> set (db_tasks db). schema_row t"
  shows "\<forall>t \<in> set (db_tasks (snd (PUT_tasks session body now db))). schema_row t"
proof -
  have "db_tasks (snd (PUT_tasks session body now db)) = db_tasks db
        \<or> (\<exists>uid items. db_tasks (snd (PUT_tasks session body now db))
              = fst (fold (bulk_update_one uid now) items (db_tasks db, True)))"
    by (auto simp: PUT_tasks_def Let_def split: option.splits bool.splits)
  with assms bulk_updates_schema_rows [of "(db_tasks db, True)"] show ?thesis
    by auto
qed

text \<open>
  Claim C4, evaluated at a task that enters \<open>DONE\<close>. The task \<open>1\<close> of \<open>user1\<close> is stored
  with the status \<open>TODO\<close> and, as every stored row, without a completion time. The
  single-task update \<open>{status: DONE}\<close> and the bulk update \<open>{id: 1, status: DONE, order: 0}\<close>
  by the owner both put \<open>completedAt\<close> into the data of the write, which the store
  refuses: both are answered 500, and the stored row still has the status \<open>TODO\<close> and no
  completion time.
\<close>

theorem status_update_stores_no_completedAt:
  "PUT_task (Some ''user1'') (Some (no_task_updates\<lparr>u_status := Some DONE\<rparr>)) ''1'' 500
      (sample_db [mk_task ''1'' TODO 0])
     = (error_response 500 ''Internal server error'', sample_db [mk_task ''1'' TODO 0])
   \<and> PUT_tasks (Some ''user1'')
        (Some \<lparr> bulkUpdate = True,
                bulk_tasks = Some [\<lparr> b_id = ''1'', b_status = DONE, b_order = 0 \<rparr>] \<rparr>)
        500 (sample_db [mk_task ''1'' TODO 0])
     = (error_response 500 ''Internal server error'', sample_db [mk_task ''1'' TODO 0])
   \<and> task_status (mk_task ''1'' TODO 0) = TODO
   \<and> task_completedAt (mk_task ''1'' TODO 0) = None"
  by (simp add: PUT_tasks_def PUT_task_def no_user_def sample_db_def mk_task_def Let_def
      bulk_update_one_def bulk_data_def updateTaskSchema_def optional_def no_task_updates_def
      findFirst_task_def updateData_def task_update_def unknown_keys_def)


section \<open>Ownership and the not-found outcome\<close>

lemma find_None_owner:
  "\<forall>t \<in> set xs. P t \<longrightarrow> \<not> Q t \<Longrightarrow> find (\<lambda>t. P t \<and> Q t) xs = None"
  by (induction xs) auto

text \<open>
  The claim C5 as it is worded promises the status 404 for every request on a resource of
  another user. The task \<open>1\<close> belongs to \<open>user1\<close>; the update of \<open>user2\<close> with an
  empty title is answered 400 by the validation, which runs before the ownership check.
\<close>

theorem foreign_update_counterexample:
  "res_status (fst (PUT_task (Some ''user2'') (Some (no_task_updates\<lparr>u_title := Some []\<rparr>)) ''1''
      500 (sample_db [mk_task ''1'' TODO 0]))) = 400
   \<and> task_userId (mk_task ''1'' TODO 0) = ''user1''"
  by (simp add: PUT_task_def no_user_def updateTaskSchema_def optional_def title_issues_def
      no_task_updates_def validation_response_def mk_task_def)

text \<open>
  Claim C5, amended. Let an authenticated caller \<open>uid\<close> own no task with the id \<open>tid\<close> and
  no project with the id \<open>pid\<close>, whether such a resource exists for another user or not.
  Reading or deleting the task or the project answers 404 with \<open>Task not found\<close> or
  \<open>Project not found\<close>. Updating answers the same 404 when the body parses and passes
  validation, and otherwise the 500 or 400 of the body, which is decided before the
  ownership check. No response depends on the store and the store is unchanged, so the
  response is the one given when the resource does not exist at all.
\<close>

theorem foreign_resource_not_found:
  assumes auth: "uid \<noteq> []"
    and task: "\<forall>t \<in> set (db_tasks db). task_id t = tid \<longrightarrow> task_userId t \<noteq> uid"
    and project: "\<forall>p \<in> set (db_projects db). project_id p = pid \<longrightarrow> project_userId p \<noteq> uid"
  shows "GET_task (Some uid) tid db = error_response 404 ''Task not found''
       \<and> DELETE_task (Some uid) tid db = (error_response 404 ''Task not found'', db)
       \<and> PUT_task (Some uid) body tid now db =
           (case body of
              None \<Rightarrow> error_response 500 ''Internal server error''
            | Some b \<Rightarrow> if updateTaskSchema b \<noteq> [] then validation_response (updateTaskSchema b)
                        else error_response 404 ''Task not found'', db)
       \<and> GET_project (Some uid) pid db = error_response 404 ''Project not found''
       \<and> DELETE_project (Some uid) pid db = (error_response 404 ''Project not found'', db)
       \<and> PUT_project (Some uid) pbody pid now db =
           (case pbody of
              None \<Rightarrow> error_response 500 ''Failed to update project''
            | Some b \<Rightarrow> error_response 404 ''Project not found'', db)"
proof -
  from find_None_owner [OF task] have t: "findFirst_task tid uid db = None"
    by (simp add: findFirst_task_def)
  from find_None_owner [OF project] have p: "findFirst_project pid uid db = None"
    by (simp add: findFirst_project_def)
  have 1: "GET_task (Some uid) tid db = error_response 404 ''Task not found''"
    using auth t by (simp add: GET_task_def no_user_def)
  have 2: "DELETE_task (Some uid) tid db = (error_response 404 ''Task not found'', db)"
    using auth t by (simp add: DELETE_task_def no_user_def)
  have 3: "PUT_task (Some uid) body tid now db =
           (case body of
              None \<Rightarrow> error_response 500 ''Internal server error''
            | Some b \<Rightarrow> if updateTaskSchema b \<noteq> [] then validation_response (updateTaskSchema b)
                        else error_response 404 ''Task not found'', db)"
    using auth t by (simp add: PUT_task_def no_user_def split: option.splits)
  have 4: "GET_project (Some uid) pid db = error_response 404 ''Project not found''"
    using auth p by (simp add: GET_project_def no_user_def)
  have 5: "DELETE_project (Some uid) pid db = (error_response 404 ''Project not found'', db)"
    using auth p by (simp add: DELETE_project_def no_user_def)
  have 6: "PUT_project (Some uid) pbody pid now db =
           (case pbody of
              None \<Rightarrow> error_response 500 ''Failed to update project''
            | Some b \<Rightarrow> error_response 404 ''Project not found'', db)"
    using auth p by (simp add: PUT_project_def no_user_def split: option.splits)
  from 1 2 3 4 5 6 show ?thesis by blast
qed

theorem foreign_resource_not_found_witness:
  "GET_task (Some ''user2'') ''1'' (sample_db [mk_task ''1'' TODO 0])
     = error_response 404 ''Task not found''
   \<and> GET_task (Some ''user2'') ''1'' (sample_db []) = error_response 404 ''Task not found''
   \<and> PUT_task (Some ''user2'') (Some (no_task_updates\<lparr>u_status := Some DONE\<rparr>)) ''1'' 500
        (sample_db [mk_task ''1'' TODO 0])
     = (error_response 404 ''Task not found'', sample_db [mk_task ''1'' TODO 0])
   \<and> DELETE_project (Some ''user2'') ''p1'' (sample_db [mk_task ''1'' TODO 0])
     = (error_response 404 ''Project not found'', sample_db [mk_task ''1'' TODO 0])"
proof -
  have auth: "''user2'' \<noteq> []" by simp
  have t1: "\<forall>t \<in> set (db_tasks (sample_db [mk_task ''1'' TODO 0])).
              task_id t = ''1'' \<longrightarrow> task_userId t \<noteq> ''user2''"
    by (simp add: sample_db_def mk_task_def)
  have p1: "\<forall>p \<in> set (db_projects (sample_db [mk_task ''1'' TODO 0])).
              project_id p = ''p1'' \<longrightarrow> project_userId p \<noteq> ''user2''"
    by (simp add: sample_db_def sample_project_def)
  have t0: "\<forall>t \<in> set (db_tasks (sample_db [])). task_id t = ''1'' \<longrightarrow> task_userId t \<noteq> ''user2''"
    by (simp add: sample_db_def)
  have p0: "\<forall>p \<in> set (db_projects (sample_db [])).
              project_id p = ''p1'' \<longrightarrow> project_userId p \<noteq> ''user2''"
    by (simp add: sample_db_def sample_project_def)
  have v: "updateTaskSchema (no_task_updates\<lparr>u_status := Some DONE\<rparr>) = []"
    by (simp add: updateTaskSchema_def optional_def no_task_updates_def)
  from foreign_resource_not_found [OF auth t1 p1,
      of "Some (no_task_updates\<lparr>u_status := Some DONE\<rparr>)" 500 None]
    foreign_resource_not_found [OF auth t0 p0, of None 500 None] v
  show ?thesis by simp
qed


section \<open>Board reconciliation\<close>

subsection \<open>Lists, lookups and the renumbering loop\<close>

lemma forEach_order_other: "a \<notin> set refs \<Longrightarrow> forEach_order refs k h a = h a"
  by (induction refs arbitrary: k h) auto

lemma forEach_order_nth:
  "distinct refs \<Longrightarrow> n < length refs \<Longrightarrow>
     forEach_order refs k h (refs ! n) = (h (refs ! n))\<lparr>task_order := int (k + n)\<rparr>"
proof (induction refs arbitrary: k h n)
  case Nil
  then show ?case by simp
next
  case (Cons a refs)
  show ?case
  proof (cases n)
    case 0
    with Cons.prems show ?thesis by (simp add: forEach_order_other)
  next
    case (Suc m)
    with Cons.prems have ne: "refs ! m \<noteq> a" by auto
    let ?h = "h(a := (h a)\<lparr>task_order := int k\<rparr>)"
    have "forEach_order (a # refs) k h ((a # refs) ! n) = forEach_order refs (Suc k) ?h (refs ! m)"
      using Suc by simp
    also have "\<dots> = (?h (refs ! m))\<lparr>task_order := int (Suc k + m)\<rparr>"
      using Cons.prems Suc by (intro Cons.IH) auto
    also have "\<dots> = (h ((a # refs) ! n))\<lparr>task_order := int (k + n)\<rparr>"
      using ne Suc by simp
    finally show ?thesis .
  qed
qed

lemma forEach_order_map:
  "distinct refs \<Longrightarrow> map (forEach_order refs 0 h) refs = renumbered (map h refs)"
  by (rule nth_equalityI) (simp_all add: renumbered_def forEach_order_nth)

lemma forEach_order_status: "task_status (forEach_order refs k h a) = task_status (h a)"
  by (induction refs arbitrary: k h) auto

lemma forEach_order_id: "task_id (forEach_order refs k h a) = task_id (h a)"
  by (induction refs arbitrary: k h) auto

lemma find_findIndex:
  "find P xs = Some x \<Longrightarrow> \<exists>n. findIndex P xs = Some n \<and> n < length xs \<and> xs ! n = x"
  by (induction xs) (auto split: if_splits)

lemma find_list_update:
  "distinct (map f xs) \<Longrightarrow> n < length xs \<Longrightarrow> f y = f (xs ! n) \<Longrightarrow>
     find (\<lambda>x. f x = c) (xs[n := y]) = (if c = f (xs ! n) then Some y else find (\<lambda>x. f x = c) xs)"
proof (induction xs arbitrary: n)
  case Nil
  then show ?case by simp
next
  case (Cons x xs)
  show ?case
  proof (cases n)
    case 0
    with Cons.prems show ?thesis by auto
  next
    case (Suc m)
    with Cons.prems have "f (xs ! m) \<noteq> f x" by (metis distinct.simps(2) list.simps(9) nth_mem image_eqI set_map Suc_less_eq length_Cons)
    with Suc Cons show ?thesis by auto
  qed
qed

lemma find_distinct_nth:
  "distinct (map g xs) \<Longrightarrow> i < length xs \<Longrightarrow> find (\<lambda>a. g a = g (xs ! i)) xs = Some (xs ! i)"
proof (induction xs arbitrary: i)
  case Nil
  then show ?case by simp
next
  case (Cons x xs)
  show ?case
  proof (cases i)
    case 0
    then show ?thesis by simp
  next
    case (Suc m)
    with Cons.prems have "g (xs ! m) \<noteq> g x" by (metis distinct.simps(2) list.simps(9) nth_mem image_eqI set_map Suc_less_eq length_Cons)
    with Suc Cons show ?thesis by auto
  qed
qed

lemma map_splice_insert: "map f (splice_insert j x xs) = splice_insert j (f x) (map f xs)"
  by (simp add: splice_insert_def take_map drop_map)

lemma map_splice_remove: "map f (splice_remove i xs) = splice_remove i (map f xs)"
  by (simp add: splice_remove_def take_map drop_map)

lemma set_splice_insert: "set (splice_insert j x xs) = insert x (set xs)"
proof -
  have "set (take j xs) \<union> set (drop j xs) = set xs"
    by (metis append_take_drop_id set_append)
  then show ?thesis by (auto simp: splice_insert_def)
qed

lemma set_splice_remove: "set (splice_remove i xs) \<subseteq> set xs"
  by (auto simp: splice_remove_def dest: in_set_takeD in_set_dropD)

lemma distinct_splice_remove: "distinct xs \<Longrightarrow> distinct (splice_remove i xs)"
proof -
  assume d: "distinct xs"
  have "set (take i xs) \<inter> set (drop i xs) = {}"
    using d by (metis append_take_drop_id distinct_append)
  moreover have "set (drop (Suc i) xs) \<subseteq> set (drop i xs)"
    by (metis drop_Suc set_drop_subset tl_drop drop_drop set_drop_subset_set_drop Suc_n_not_le_n nat_le_linear)
  ultimately show ?thesis using d by (auto simp: splice_remove_def)
qed

lemma distinct_splice_insert: "distinct xs \<Longrightarrow> x \<notin> set xs \<Longrightarrow> distinct (splice_insert j x xs)"
proof -
  assume d: "distinct xs" and x: "x \<notin> set xs"
  have "distinct (take j xs) \<and> distinct (drop j xs) \<and> set (take j xs) \<inter> set (drop j xs) = {}"
    using d by (metis append_take_drop_id distinct_append)
  then show ?thesis using x by (auto simp: splice_insert_def dest: in_set_takeD in_set_dropD)
qed

lemma lane_nth:
  "distinct (map col_id (columns st)) \<Longrightarrow> n < length (columns st) \<Longrightarrow>
     lane st (col_id (columns st ! n)) = map (objs st) (col_tasks (columns st ! n))"
  by (simp add: lane_def find_distinct_nth)

text \<open>The lanes computed from different task objects in use form a well-formed board.\<close>

lemma organize_wf:
  assumes "distinct tasks" and "\<forall>a \<in> set tasks. a < n"
  shows "wf_board \<lparr> objs = h, next_ref = n, columns = organize h tasks \<rparr>"
  using assms by (auto simp: wf_board_def organize_def BOARD_COLUMNS_def)


subsection \<open>Drops that change nothing\<close>

text \<open>
  Claim C3. A drop outside every lane (no destination) and a drop on the source lane at
  the source index leave the whole state as it is, the objects with their statuses and
  ranks and the columns, and make no update call and no notification.
\<close>

theorem handleDragEnd_noop:
  assumes "destination result = None
           \<or> (\<exists>dest. destination result = Some dest
                 \<and> droppableId dest = droppableId (source result)
                 \<and> loc_index dest = loc_index (source result))"
  shows "handleDragEnd onTaskUpdate tasks result st = (st, [])"
  using assms by (auto simp: handleDragEnd_def)

theorem handleDragEnd_noop_witness:
  "handleDragEnd (\<lambda>_ _. True) [0, 1] (drag ''1'' TODO 0 TODO 0)
      (two_tasks (mk_task ''1'' TODO 0) (mk_task ''2'' TODO 1))
     = (two_tasks (mk_task ''1'' TODO 0) (mk_task ''2'' TODO 1), [])
   \<and> handleDragEnd (\<lambda>_ _. True) [0, 1]
        \<lparr> destination = None, source = \<lparr> droppableId = TODO, loc_index = 0 \<rparr>, draggableId = ''1'' \<rparr>
      (two_tasks (mk_task ''1'' TODO 0) (mk_task ''2'' TODO 1))
     = (two_tasks (mk_task ''1'' TODO 0) (mk_task ''2'' TODO 1), [])"
proof -
  have a: "destination (drag ''1'' TODO 0 TODO 0) = None
           \<or> (\<exists>dest. destination (drag ''1'' TODO 0 TODO 0) = Some dest
                 \<and> droppableId dest = droppableId (source (drag ''1'' TODO 0 TODO 0))
                 \<and> loc_index dest = loc_index (source (drag ''1'' TODO 0 TODO 0)))"
    by (simp add: drag_def)
  let ?r = "\<lparr> destination = None, source = \<lparr> droppableId = TODO, loc_index = 0 \<rparr>, draggableId = ''1'' \<rparr>"
  have b: "destination ?r = None
           \<or> (\<exists>dest. destination ?r = Some dest
                 \<and> droppableId dest = droppableId (source ?r)
                 \<and> loc_index dest = loc_index (source ?r))"
    by simp
  from handleDragEnd_noop [OF a] handleDragEnd_noop [OF b] show ?thesis by simp
qed


subsection \<open>The optimistic update, lane by lane\<close>

text \<open>
  On a well-formed board, with the source and destination columns at the indices \<open>si\<close>
  and \<open>di\<close>: the destination lane is the renumbered insertion of the moved task, the
  source lane of a move between two lanes only loses the task, and the other lanes keep
  what they show.
\<close>

lemma optimistic_update_lanes:
  assumes wf: "wf_board st"
    and si: "si < length (columns st)" and di: "di < length (columns st)"
    and s: "col_id (columns st ! si) = droppableId src"
    and d: "col_id (columns st ! di) = droppableId dest"
    and i: "loc_index src < length (col_tasks (columns st ! si))"
    and dragged: "draggedTask = col_tasks (columns st ! si) ! loc_index src"
  shows "lane (optimistic_update src dest draggedTask si di st) (droppableId dest) =
           renumbered (splice_insert (loc_index dest)
              ((lane st (droppableId src) ! loc_index src)
                 \<lparr>task_status := droppableId dest, task_order := int (loc_index dest)\<rparr>)
              (if droppableId src = droppableId dest
               then splice_remove (loc_index src) (lane st (droppableId src))
               else lane st (droppableId dest)))" (is ?dest)
    and "droppableId src \<noteq> droppableId dest \<Longrightarrow>
           lane (optimistic_update src dest draggedTask si di st) (droppableId src) =
             splice_remove (loc_index src) (lane st (droppableId src))" (is "_ \<Longrightarrow> ?source")
    and "c \<noteq> droppableId src \<Longrightarrow> c \<noteq> droppableId dest \<Longrightarrow>
           lane (optimistic_update src dest draggedTask si di st) c = lane st c" (is "_ \<Longrightarrow> _ \<Longrightarrow> ?other")
proof -
  let ?cols = "columns st"
  let ?sc = "?cols ! si"
  let ?i = "loc_index src"
  let ?j = "loc_index dest"
  let ?new = "next_ref st"
  let ?removed = "?cols[si := ?sc\<lparr>col_tasks := splice_remove ?i (col_tasks ?sc)\<rparr>]"
  let ?base = "col_tasks (?removed ! di)"
  let ?newlane = "splice_insert ?j ?new ?base"
  let ?inserted = "?removed[di := (?removed ! di)\<lparr>col_tasks := ?newlane\<rparr>]"
  let ?h1 = "(objs st)(?new := (objs st draggedTask)
               \<lparr>task_status := droppableId dest, task_order := int ?j\<rparr>)"
  let ?h2 = "forEach_order ?newlane 0 ?h1"
  let ?st' = "optimistic_update src dest draggedTask si di st"
  have objs': "objs ?st' = ?h2" and cols': "columns ?st' = ?inserted"
    using di by (simp_all add: optimistic_update_def Let_def)
  from wf have dist: "distinct (map col_id ?cols)"
    and lanes: "\<And>col. col \<in> set ?cols \<Longrightarrow> distinct (col_tasks col)"
    and used: "\<And>col a. col \<in> set ?cols \<Longrightarrow> a \<in> set (col_tasks col) \<Longrightarrow> a < ?new"
    and disj: "\<And>c1 c2. c1 \<in> set ?cols \<Longrightarrow> c2 \<in> set ?cols \<Longrightarrow> col_id c1 \<noteq> col_id c2 \<Longrightarrow>
                 set (col_tasks c1) \<inter> set (col_tasks c2) = {}"
    by (auto simp: wf_board_def)
  have same: "si = di \<longleftrightarrow> droppableId src = droppableId dest"
    using dist si di s d by (metis length_map nth_eq_iff_index_eq nth_map)
  have ids_removed: "map col_id ?removed = map col_id ?cols"
    using si by (simp add: map_update list_update_same_conv)
  have base: "?base = (if si = di then splice_remove ?i (col_tasks ?sc) else col_tasks (?cols ! di))"
    using si di by simp
  have base_sub: "set ?base \<subseteq> set (col_tasks (?cols ! di))"
    using base set_splice_remove [of ?i "col_tasks ?sc"] by auto
  have base_dist: "distinct ?base"
    using base lanes [of "?cols ! si"] lanes [of "?cols ! di"] si di
    by (auto simp: distinct_splice_remove)
  have new_base: "?new \<notin> set ?base"
    using base_sub used [of "?cols ! di" ?new] di by auto
  have newlane_dist: "distinct ?newlane"
    using base_dist new_base by (rule distinct_splice_insert)
  have h1_old: "\<And>a. a \<noteq> ?new \<Longrightarrow> ?h1 a = objs st a"
    by simp
  have src_lane: "lane st (droppableId src) = map (objs st) (col_tasks ?sc)"
    using lane_nth [OF dist si] s by simp
  have dest_lane: "lane st (droppableId dest) = map (objs st) (col_tasks (?cols ! di))"
    using lane_nth [OF dist di] d by simp
  have find_dest: "find (\<lambda>col. col_id col = droppableId dest) ?inserted
                     = Some ((?removed ! di)\<lparr>col_tasks := ?newlane\<rparr>)"
  proof -
    have "distinct (map col_id ?removed)" using ids_removed dist by simp
    moreover have "di < length ?removed" using di by simp
    moreover have "col_id ((?removed ! di)\<lparr>col_tasks := ?newlane\<rparr>) = col_id (?removed ! di)" by simp
    moreover have "col_id (?removed ! di) = droppableId dest"
      using d si di by (cases "si = di") simp_all
    ultimately show ?thesis
      using find_list_update [of col_id ?removed di "(?removed ! di)\<lparr>col_tasks := ?newlane\<rparr>" "droppableId dest"]
      by simp
  qed
  have "lane ?st' (droppableId dest) = map ?h2 ?newlane"
    using find_dest by (simp add: lane_def objs' cols')
  also have "\<dots> = renumbered (map ?h1 ?newlane)"
    using newlane_dist by (rule forEach_order_map)
  also have "map ?h1 ?newlane = splice_insert ?j (?h1 ?new) (map ?h1 ?base)"
    by (rule map_splice_insert)
  also have "map ?h1 ?base = map (objs st) ?base"
    using new_base by (intro map_cong refl h1_old) auto
  also have "map (objs st) ?base =
               (if droppableId src = droppableId dest
                then splice_remove ?i (lane st (droppableId src))
                else lane st (droppableId dest))"
    using base same src_lane dest_lane by (cases "si = di") (auto simp: map_splice_remove)
  also have "?h1 ?new = (lane st (droppableId src) ! ?i)
                 \<lparr>task_status := droppableId dest, task_order := int ?j\<rparr>"
    using src_lane i dragged by simp
  finally show ?dest .
  have untouched: "map ?h2 refs = map (objs st) refs"
    if "col \<in> set ?cols" and "col_id col \<noteq> droppableId dest" and "set refs \<subseteq> set (col_tasks col)"
    for col refs
  proof (intro map_cong refl)
    fix a assume a: "a \<in> set refs"
    with that have in_col: "a \<in> set (col_tasks col)" by auto
    with used that have "a \<noteq> ?new" by fastforce
    moreover have "a \<notin> set ?base"
      using disj [of col "?cols ! di"] that d di in_col base_sub by fastforce
    ultimately have "a \<notin> set ?newlane"
      by (simp add: set_splice_insert)
    then have "?h2 a = ?h1 a" by (rule forEach_order_other)
    with \<open>a \<noteq> ?new\<close> show "?h2 a = objs st a" by simp
  qed
  {
    assume ne: "droppableId src \<noteq> droppableId dest"
    with same have sidi: "si \<noteq> di" by simp
    have "find (\<lambda>col. col_id col = droppableId src) ?inserted
            = find (\<lambda>col. col_id col = droppableId src) ?removed"
    proof -
      have "distinct (map col_id ?removed)" using ids_removed dist by simp
      moreover have "di < length ?removed" using di by simp
      moreover have "col_id (?removed ! di) = droppableId dest"
        using d si di sidi by simp
      ultimately show ?thesis
        using find_list_update [of col_id ?removed di "(?removed ! di)\<lparr>col_tasks := ?newlane\<rparr>" "droppableId src"] ne
        by simp
    qed
    also have "\<dots> = Some (?sc\<lparr>col_tasks := splice_remove ?i (col_tasks ?sc)\<rparr>)"
      using find_list_update [OF dist si, of "?sc\<lparr>col_tasks := splice_remove ?i (col_tasks ?sc)\<rparr>" "droppableId src"] s
      by simp
    finally have "lane ?st' (droppableId src) = map ?h2 (splice_remove ?i (col_tasks ?sc))"
      by (simp add: lane_def objs' cols')
    also have "\<dots> = map (objs st) (splice_remove ?i (col_tasks ?sc))"
      using untouched [of ?sc "splice_remove ?i (col_tasks ?sc)"] si s ne set_splice_remove
      by fastforce
    finally show ?source
      by (simp add: src_lane map_splice_remove)
  }
  {
    assume cs: "c \<noteq> droppableId src" and cd: "c \<noteq> droppableId dest"
    have "find (\<lambda>col. col_id col = c) ?inserted = find (\<lambda>col. col_id col = c) ?removed"
    proof -
      have "distinct (map col_id ?removed)" using ids_removed dist by simp
      moreover have "di < length ?removed" using di by simp
      moreover have "col_id (?removed ! di) = droppableId dest"
        using d si di by (cases "si = di") simp_all
      ultimately show ?thesis
        using find_list_update [of col_id ?removed di "(?removed ! di)\<lparr>col_tasks := ?newlane\<rparr>" c] cd
        by simp
    qed
    also have "\<dots> = find (\<lambda>col. col_id col = c) ?cols"
      using find_list_update [OF dist si, of "?sc\<lparr>col_tasks := splice_remove ?i (col_tasks ?sc)\<rparr>" c] s cs
      by simp
    finally have f: "find (\<lambda>col. col_id col = c) (columns ?st') = find (\<lambda>col. col_id col = c) ?cols"
      by (simp add: cols')
    show ?other
    proof (cases "find (\<lambda>col. col_id col = c) ?cols")
      case None
      with f show ?thesis by (simp add: lane_def)
    next
      case (Some col)
      then have "col \<in> set ?cols" and "col_id col = c"
        by (auto simp: find_Some_iff)
      with untouched [of col "col_tasks col"] cd have "map ?h2 (col_tasks col) = map (objs st) (col_tasks col)"
        by simp
      with f Some show ?thesis by (simp add: lane_def objs')
    qed
  }
qed

lemma renumbered_nth:
  "k < length ts \<Longrightarrow> renumbered ts ! k = (ts ! k)\<lparr>task_order := int k\<rparr>"
  by (simp add: renumbered_def)

lemma length_renumbered: "length (renumbered ts) = length ts"
  by (simp add: renumbered_def)

lemma splice_insert_nth: "j \<le> length xs \<Longrightarrow> splice_insert j x xs ! j = x"
  by (simp add: splice_insert_def nth_append)

lemma length_splice_insert: "length (splice_insert j x xs) = Suc (length xs)"
  by (simp add: splice_insert_def)

lemma length_splice_remove:
  "length (splice_remove i xs) = (if i < length xs then length xs - 1 else length xs)"
  by (auto simp: splice_remove_def)

text \<open>
  Claim C1, amended. Let a task be dragged from index \<open>i\<close> of the source lane to another
  (lane, index) position \<open>j\<close>, on a well-formed board, with \<open>i\<close> a position of the source
  lane that holds the dragged task (ids are different within the lane), \<open>j\<close> at most the
  length of the destination lane after the removal, and the update accepted. Then the
  destination lane shows the renumbering 0..n-1 of: the moved task, with the destination
  status and the rank \<open>j\<close>, inserted at \<open>j\<close> into the destination lane (into the source
  lane without its entry \<open>i\<close> when the move stays in one lane). So the moved task stands
  at \<open>j\<close> with that status and rank, and every task of the destination lane has its
  position as rank. When the two lanes differ, the source lane is its old list without
  entry \<open>i\<close>, the ranks of the remaining tasks untouched. Every other lane is unchanged,
  and one update call with the new status and rank is made.
\<close>

theorem handleDragEnd_move:
  assumes wf: "wf_board st"
    and dest: "destination result = Some dest"
    and differ: "droppableId dest \<noteq> droppableId (source result)
                 \<or> loc_index dest \<noteq> loc_index (source result)"
    and src_col: "find (\<lambda>col. col_id col = droppableId (source result)) (columns st) = Some sourceColumn"
    and dst_col: "find (\<lambda>col. col_id col = droppableId dest) (columns st) = Some destColumn"
    and i: "loc_index (source result) < length (col_tasks sourceColumn)"
    and ids: "distinct (map (\<lambda>a. task_id (objs st a)) (col_tasks sourceColumn))"
    and dragged: "task_id (objs st (col_tasks sourceColumn ! loc_index (source result))) = draggableId result"
    and j: "loc_index dest \<le> length (if droppableId (source result) = droppableId dest
               then splice_remove (loc_index (source result)) (col_tasks sourceColumn)
               else col_tasks destColumn)"
    and ok: "onTaskUpdate (draggableId result) (move_updates dest)"
  shows "lane (fst (handleDragEnd onTaskUpdate tasks result st)) (droppableId dest) =
           renumbered (splice_insert (loc_index dest)
              ((lane st (droppableId (source result)) ! loc_index (source result))
                 \<lparr>task_status := droppableId dest, task_order := int (loc_index dest)\<rparr>)
              (if droppableId (source result) = droppableId dest
               then splice_remove (loc_index (source result)) (lane st (droppableId (source result)))
               else lane st (droppableId dest)))
       \<and> lane (fst (handleDragEnd onTaskUpdate tasks result st)) (droppableId dest) ! loc_index dest =
           (lane st (droppableId (source result)) ! loc_index (source result))
              \<lparr>task_status := droppableId dest, task_order := int (loc_index dest)\<rparr>
       \<and> (\<forall>k < length (lane (fst (handleDragEnd onTaskUpdate tasks result st)) (droppableId dest)).
             task_order (lane (fst (handleDragEnd onTaskUpdate tasks result st)) (droppableId dest) ! k) = int k)
       \<and> (droppableId (source result) \<noteq> droppableId dest \<longrightarrow>
             lane (fst (handleDragEnd onTaskUpdate tasks result st)) (droppableId (source result)) =
               splice_remove (loc_index (source result)) (lane st (droppableId (source result))))
       \<and> (\<forall>c. c \<noteq> droppableId (source result) \<and> c \<noteq> droppableId dest \<longrightarrow>
             lane (fst (handleDragEnd onTaskUpdate tasks result st)) c = lane st c)
       \<and> snd (handleDragEnd onTaskUpdate tasks result st) =
           [TaskUpdateCall (draggableId result) (move_updates dest),
            Toast ''Task moved'' (''Task moved to '' @ col_title destColumn)]"
proof -
  let ?src = "source result"
  let ?i = "loc_index ?src"
  let ?j = "loc_index dest"
  from find_findIndex [OF src_col] obtain si
    where si: "findIndex (\<lambda>col. col_id col = droppableId ?src) (columns st) = Some si"
      "si < length (columns st)" "columns st ! si = sourceColumn"
    by blast
  from find_findIndex [OF dst_col] obtain di
    where di: "findIndex (\<lambda>col. col_id col = droppableId dest) (columns st) = Some di"
      "di < length (columns st)" "columns st ! di = destColumn"
    by blast
  from src_col have s: "col_id (columns st ! si) = droppableId ?src"
    using si by (auto simp: find_Some_iff)
  from dst_col have d: "col_id (columns st ! di) = droppableId dest"
    using di by (auto simp: find_Some_iff)
  let ?dragged = "col_tasks sourceColumn ! ?i"
  have found: "find (\<lambda>task. task_id (objs st task) = draggableId result) (col_tasks sourceColumn)
                 = Some ?dragged"
    using find_distinct_nth [OF ids i] dragged by simp
  let ?st1 = "optimistic_update ?src dest ?dragged si di st"
  have run: "handleDragEnd onTaskUpdate tasks result st =
               (?st1, [TaskUpdateCall (draggableId result) (move_updates dest),
                       Toast ''Task moved'' (''Task moved to '' @ col_title destColumn)])"
    using dest differ src_col dst_col found si(1) di(1) ok
    by (auto simp: handleDragEnd_def Let_def)
  have i': "?i < length (col_tasks (columns st ! si))"
    using i si by simp
  have dr: "?dragged = col_tasks (columns st ! si) ! ?i"
    using si by simp
  note L = optimistic_update_lanes [OF wf si(2) di(2) s d i' dr]
  from wf have dist: "distinct (map col_id (columns st))"
    by (simp add: wf_board_def)
  have src_lane: "lane st (droppableId ?src) = map (objs st) (col_tasks sourceColumn)"
    using lane_nth [OF dist si(2)] s si by simp
  have dest_lane: "lane st (droppableId dest) = map (objs st) (col_tasks destColumn)"
    using lane_nth [OF dist di(2)] d di by simp
  let ?base = "if droppableId ?src = droppableId dest
               then splice_remove ?i (lane st (droppableId ?src)) else lane st (droppableId dest)"
  let ?moved = "(lane st (droppableId ?src) ! ?i)
                  \<lparr>task_status := droppableId dest, task_order := int ?j\<rparr>"
  have same_col: "sourceColumn = destColumn" if "droppableId ?src = droppableId dest"
    using that src_col dst_col by simp
  have jb: "?j \<le> length ?base"
  proof (cases "droppableId ?src = droppableId dest")
    case True
    with j same_col src_lane show ?thesis by (auto simp: length_splice_remove split: if_splits)
  next
    case False
    with j dest_lane show ?thesis by simp
  qed
  have 1: "lane ?st1 (droppableId dest) = renumbered (splice_insert ?j ?moved ?base)"
    by (rule L(1))
  have 2: "lane ?st1 (droppableId dest) ! ?j = ?moved"
  proof -
    have "?j < length (splice_insert ?j ?moved ?base)"
      using jb by (simp add: length_splice_insert)
    then have "renumbered (splice_insert ?j ?moved ?base) ! ?j
                 = (splice_insert ?j ?moved ?base ! ?j)\<lparr>task_order := int ?j\<rparr>"
      by (rule renumbered_nth)
    with jb 1 show ?thesis by (simp add: splice_insert_nth)
  qed
  have 3: "\<forall>k < length (lane ?st1 (droppableId dest)). task_order (lane ?st1 (droppableId dest) ! k) = int k"
    unfolding 1 by (simp add: length_renumbered renumbered_nth)
  have 4: "droppableId ?src \<noteq> droppableId dest \<longrightarrow>
             lane ?st1 (droppableId ?src) = splice_remove ?i (lane st (droppableId ?src))"
    using L(2) by blast
  have 5: "\<forall>c. c \<noteq> droppableId ?src \<and> c \<noteq> droppableId dest \<longrightarrow> lane ?st1 c = lane st c"
    using L(3) by blast
  from 1 2 3 4 5 show ?thesis
    unfolding run fst_conv snd_conv by blast
qed

text \<open>The definitions unfolded to run a drag on a concrete board.\<close>

lemmas board_eval = handleDragEnd_def two_tasks_def drag_def organize_def BOARD_COLUMNS_def
  mk_task_def optimistic_update_def splice_insert_def splice_remove_def move_updates_def Let_def

theorem handleDragEnd_move_witness:
  "lane (fst (handleDragEnd (\<lambda>_ _. True) [0, 1] (drag ''2'' TODO 1 DONE 0)
            (two_tasks (mk_task ''1'' TODO 0) (mk_task ''2'' TODO 1)))) DONE
     = [mk_task ''2'' DONE 0]
   \<and> lane (fst (handleDragEnd (\<lambda>_ _. True) [0, 1] (drag ''2'' TODO 1 DONE 0)
            (two_tasks (mk_task ''1'' TODO 0) (mk_task ''2'' TODO 1)))) TODO
     = [mk_task ''1'' TODO 0]"
proof -
  let ?st = "two_tasks (mk_task ''1'' TODO 0) (mk_task ''2'' TODO 1)"
  let ?r = "drag ''2'' TODO 1 DONE 0"
  let ?dest = "\<lparr> droppableId = DONE, loc_index = 0 \<rparr>"
  let ?sc = "\<lparr> col_id = TODO, col_title = ''To Do'', col_tasks = [0, 1], col_color = ''bg-gray-100'' \<rparr>"
  let ?dc = "\<lparr> col_id = DONE, col_title = ''Done'', col_tasks = [], col_color = ''bg-green-50'' \<rparr>"
  have cols: "columns ?st = [?sc,
      \<lparr> col_id = IN_PROGRESS, col_title = ''In Progress'', col_tasks = [], col_color = ''bg-blue-50'' \<rparr>,
      \<lparr> col_id = REVIEW, col_title = ''Review'', col_tasks = [], col_color = ''bg-yellow-50'' \<rparr>,
      ?dc]"
    by (simp add: two_tasks_def organize_def BOARD_COLUMNS_def mk_task_def)
  have ob: "objs ?st 0 = mk_task ''1'' TODO 0" "objs ?st (Suc 0) = mk_task ''2'' TODO 1" "next_ref ?st = 2"
    by (simp_all add: two_tasks_def)
  have wf: "wf_board ?st"
    by (simp add: wf_board_def cols ob)
  have 1: "destination ?r = Some ?dest" by (simp add: drag_def)
  have 2: "droppableId ?dest \<noteq> droppableId (source ?r) \<or> loc_index ?dest \<noteq> loc_index (source ?r)"
    by (simp add: drag_def)
  have 3: "find (\<lambda>col. col_id col = droppableId (source ?r)) (columns ?st) = Some ?sc"
    by (simp add: cols drag_def)
  have 4: "find (\<lambda>col. col_id col = droppableId ?dest) (columns ?st) = Some ?dc"
    by (simp add: cols)
  have 5: "loc_index (source ?r) < length (col_tasks ?sc)" by (simp add: drag_def)
  have 6: "distinct (map (\<lambda>a. task_id (objs ?st a)) (col_tasks ?sc))"
    by (simp add: two_tasks_def mk_task_def)
  have 7: "task_id (objs ?st (col_tasks ?sc ! loc_index (source ?r))) = draggableId ?r"
    by (simp add: two_tasks_def drag_def mk_task_def)
  have 8: "loc_index ?dest \<le> length (if droppableId (source ?r) = droppableId ?dest
               then splice_remove (loc_index (source ?r)) (col_tasks ?sc)
               else col_tasks ?dc)"
    by simp
  have 9: "(\<lambda>_ _. True) (draggableId ?r) (move_updates ?dest)" by simp
  have l: "lane ?st TODO = [mk_task ''1'' TODO 0, mk_task ''2'' TODO 1]" "lane ?st DONE = []"
    by (simp_all add: lane_def cols ob)
  let ?st' = "fst (handleDragEnd (\<lambda>_ _. True) [0, 1] ?r ?st)"
  from handleDragEnd_move [OF wf 1 2 3 4 5 6 7 8, of "\<lambda>_ _. True" "[0, 1]", OF 9]
  have "lane ?st' DONE
          = renumbered (splice_insert 0 ((mk_task ''2'' TODO 1)\<lparr>task_status := DONE, task_order := 0\<rparr>) [])
        \<and> lane ?st' TODO = splice_remove 1 [mk_task ''1'' TODO 0, mk_task ''2'' TODO 1]"
    by (simp add: drag_def l)
  then show ?thesis
    by (simp add: renumbered_def splice_insert_def splice_remove_def mk_task_def)
qed

text \<open>
  The claim C1 as it is worded also covers a move inside one lane, where the source lane
  is the destination lane and is renumbered. The lane \<open>TODO\<close> shows the tasks 1 and 2 with
  the ranks 0 and 1; after dragging task 1 from index 0 to index 1, the remaining task 2
  has the rank 0 instead of its rank 1.
\<close>

theorem same_lane_move_counterexample:
  "lane (two_tasks (mk_task ''1'' TODO 0) (mk_task ''2'' TODO 1)) TODO
     = [mk_task ''1'' TODO 0, mk_task ''2'' TODO 1]
   \<and> lane (fst (handleDragEnd (\<lambda>_ _. True) [0, 1] (drag ''1'' TODO 0 TODO 1)
            (two_tasks (mk_task ''1'' TODO 0) (mk_task ''2'' TODO 1)))) TODO
     = [mk_task ''2'' TODO 0, mk_task ''1'' TODO 1]"
  by (simp add: lane_def board_eval)


subsection \<open>A failed move\<close>

text \<open>
  Claim C2, evaluated at a move whose update fails. The board shows task 1 in \<open>TODO\<close>
  with rank 0 and task 2 in \<open>DONE\<close> with rank 5. Task 1 is dragged to the top of \<open>DONE\<close>
  and \<open>onTaskUpdate\<close> rejects. The handler makes the update call and the failure
  notification, and its \<open>catch\<close> block computes the lanes again from the \<open>tasks\<close> prop; but
  the loop \<open>task.order = index\<close> has already written rank 1 into the object of task 2,
  which the prop shares. The board after the failure handler shows task 2 with rank 1:
  it is not the board from before the move.
\<close>

theorem failed_move_not_reverted:
  "board_view (two_tasks (mk_task ''1'' TODO 0) (mk_task ''2'' DONE 5))
     = [(TODO, [mk_task ''1'' TODO 0]), (IN_PROGRESS, []), (REVIEW, []),
        (DONE, [mk_task ''2'' DONE 5])]
   \<and> board_view (fst (handleDragEnd (\<lambda>_ _. False) [0, 1] (drag ''1'' TODO 0 DONE 0)
            (two_tasks (mk_task ''1'' TODO 0) (mk_task ''2'' DONE 5))))
     = [(TODO, [mk_task ''1'' TODO 0]), (IN_PROGRESS, []), (REVIEW, []),
        (DONE, [mk_task ''2'' DONE 1])]
   \<and> snd (handleDragEnd (\<lambda>_ _. False) [0, 1] (drag ''1'' TODO 0 DONE 0)
            (two_tasks (mk_task ''1'' TODO 0) (mk_task ''2'' DONE 5)))
     = [TaskUpdateCall ''1'' (move_updates \<lparr> droppableId = DONE, loc_index = 0 \<rparr>),
        Toast ''Error'' ''Failed to move task. Please try again.'']"
  by (simp add: board_view_def board_eval)

text \<open>
  The failure handler of the mutation writes back the list that \<open>onMutate\<close> kept. With
  an undefined cache entry there is no snapshot: the optimistic write stores the empty
  list and the failure handler leaves it there.
\<close>

lemma onError_onMutate:
  "onError (Some (snd (onMutate taskId updates (Some cached))))
       (fst (onMutate taskId updates (Some cached))) = Some cached"
  by (simp add: onError_def onMutate_def)

lemma onError_onMutate_undefined:
  "onError (Some (snd (onMutate taskId updates None))) (fst (onMutate taskId updates None)) = Some []"
  by (simp add: onError_def onMutate_def optimistic_apply_def)

end
